theory Spec2Isabelle
  imports Main "HOL-Library.Word"
begin

section \<open>PebbleRun watch application: message protocol and session core\<close>

text \<open>
  A shallow embedding of the C sources \<^verbatim>\<open>common.h\<close>, \<^verbatim>\<open>main.c\<close>, \<^verbatim>\<open>ui.c\<close>,
  \<^verbatim>\<open>hr.c\<close> and \<^verbatim>\<open>appmsg.c\<close>. The global variables of the program are the fields of one
  record, every function takes that record and returns the updated one, and every call
  into the platform (logging, window stack, health service, AppMessage) is appended, in
  program order, to the field \<open>trace\<close>. What a platform call returns is not decided by the
  program; it is read from a record of answers (\<open>env\<close>) given to each handler.
\<close>

subsection \<open>common.h\<close>

type_synonym uint8_t = "8 word"
type_synonym uint16_t = "16 word"
type_synonym uint32_t = "32 word"

definition KEY_PACE :: uint32_t where "KEY_PACE = 0"
definition KEY_TIME :: uint32_t where "KEY_TIME = 1"
definition KEY_HR :: uint32_t where "KEY_HR = 2"
definition KEY_CMD :: uint32_t where "KEY_CMD = 3"

definition CMD_START :: uint8_t where "CMD_START = 1"
definition CMD_STOP :: uint8_t where "CMD_STOP = 2"

text \<open>
  \<^verbatim>\<open>char pace_text[16]\<close> and \<^verbatim>\<open>char time_text[16]\<close> are the lists of the bytes of the
  arrays; that both have 16 elements is the predicate \<open>wf_AppState\<close>.
\<close>

record AppState =
  is_active :: bool
  current_hr :: uint16_t
  pace_text :: "char list"
  time_text :: "char list"

definition sizeof_text :: nat where "sizeof_text = 16"

definition wf_AppState :: "AppState \<Rightarrow> bool" where
  "wf_AppState s = (length (pace_text s) = sizeof_text \<and> length (time_text s) = sizeof_text)"

subsection \<open>C strings and arrays\<close>

definition NUL :: char where "NUL = CHR 0x00"

text \<open>
  A \<^verbatim>\<open>const char *\<close> argument is the list of the bytes it points to, read up to the
  first NUL (or to the end of the list, where the terminator stands).
\<close>

definition strlen :: "char list \<Rightarrow> nat" where
  "strlen s = length (takeWhile (\<lambda>c. c \<noteq> NUL) s)"

definition c_str :: "char list \<Rightarrow> string" where
  "c_str s = takeWhile (\<lambda>c. c \<noteq> NUL) s"

text \<open>A store into an array: outside the array it is an overrun, the value \<open>None\<close>.\<close>

definition array_set :: "char list \<Rightarrow> nat \<Rightarrow> char \<Rightarrow> char list option" where
  "array_set buf i c = (if i < length buf then Some (buf[i := c]) else None)"

text \<open>
  \<^verbatim>\<open>strncpy(dst, src, n)\<close> of the C library stores exactly \<open>n\<close> bytes, at the indices
  \<open>0 .. n - 1\<close> in this order: the bytes of \<open>src\<close> before its terminator, then NUL bytes.
\<close>

definition strncpy_char :: "char list \<Rightarrow> nat \<Rightarrow> char" where
  "strncpy_char src i = (if i < strlen src then src ! i else NUL)"

primrec strncpy :: "char list \<Rightarrow> char list \<Rightarrow> nat \<Rightarrow> char list option" where
  "strncpy dst src 0 = Some dst"
| "strncpy dst src (Suc i) =
     (case strncpy dst src i of
        None \<Rightarrow> None
      | Some d \<Rightarrow> array_set d i (strncpy_char src i))"

subsection \<open>The platform: results, messages, effects\<close>

text \<open>
  The platform's header is not among the sources. Of its enumerations the sources name
  \<^verbatim>\<open>APP_MSG_OK\<close>, \<^verbatim>\<open>DICT_OK\<close>, \<^verbatim>\<open>HealthEventHeartRateUpdate\<close>, \<^verbatim>\<open>TUPLE_CSTRING\<close>,
  \<^verbatim>\<open>TUPLE_UINT8\<close> and the four log levels; the other constructors below stand for the
  remaining values, among them the busy and closed results of the spec's error taxonomy.
\<close>

datatype AppLogLevel =
  APP_LOG_LEVEL_ERROR | APP_LOG_LEVEL_WARNING | APP_LOG_LEVEL_INFO | APP_LOG_LEVEL_DEBUG

datatype AppMessageResult = APP_MSG_OK | APP_MSG_BUSY | APP_MSG_CLOSED | APP_MSG_TRANSPORT_ERROR

datatype DictionaryResult = DICT_OK | DICT_NOT_ENOUGH_STORAGE | DICT_INVALID_ARGS

datatype HealthEventType =
  HealthEventSignificantUpdate | HealthEventMovementUpdate | HealthEventSleepUpdate
| HealthEventMetricAlert | HealthEventHeartRateUpdate

type_synonym HealthValue = "32 word"

text \<open>
  A tuple of a message dictionary is its key and its typed value; the constructor is the
  field \<^verbatim>\<open>type\<close> of the C tuple and its argument the member of the union \<^verbatim>\<open>value\<close> of
  that type. A dictionary is a finite map from keys to typed values, and \<^verbatim>\<open>dict_find\<close>
  is the lookup in it (\<open>None\<close> is the NULL pointer).
\<close>

datatype TupleType = TUPLE_BYTE_ARRAY | TUPLE_CSTRING | TUPLE_UINT8 | TUPLE_UINT16

datatype TupleValue =
  ByteArray "uint8_t list" | CString "char list" | UInt8 uint8_t | UInt16 uint16_t

fun tuple_type :: "TupleValue \<Rightarrow> TupleType" where
  "tuple_type (ByteArray b) = TUPLE_BYTE_ARRAY"
| "tuple_type (CString s) = TUPLE_CSTRING"
| "tuple_type (UInt8 v) = TUPLE_UINT8"
| "tuple_type (UInt16 v) = TUPLE_UINT16"

type_synonym Dictionary = "uint32_t \<rightharpoonup> TupleValue"

definition dict_find :: "Dictionary \<Rightarrow> uint32_t \<Rightarrow> TupleValue option" where
  "dict_find iterator k = iterator k"

datatype log_arg =
  ArgInt int | ArgStr "char list" | ArgMsgResult AppMessageResult | ArgDictResult DictionaryResult

datatype effect =
  APP_LOG AppLogLevel string "log_arg list"
| Call_window_create
| Call_window_set_background_color
| Call_window_set_window_handlers
| Call_window_stack_push
| Call_window_stack_remove
| Call_window_stack_pop_all
| Call_layer_create
| Call_layer_set_update_proc
| Call_layer_add_child
| Call_layer_destroy
| Call_layer_mark_dirty
| Call_fonts_get_system_font
| Call_health_service_events_subscribe
| Call_health_service_set_heart_rate_sample_period nat
| Call_app_message_register_inbox_received
| Call_app_message_register_inbox_dropped
| Call_app_message_register_outbox_sent
| Call_app_message_register_outbox_failed
| Call_app_message_open nat nat
| Call_app_message_outbox_begin AppMessageResult
| Call_dict_write_uint16 uint32_t uint16_t DictionaryResult
| Call_app_message_outbox_send AppMessageResult

text \<open>
  The answers of the platform to the calls of one handler. \<open>HealthValueInvalid\<close> is the
  constant of that name in the platform's header, which the sources do not define.
\<close>

record env =
  window_create_result :: bool
  layer_create_result :: bool
  health_service_events_subscribe_result :: bool
  app_message_open_result :: AppMessageResult
  set_heart_rate_sample_period_result :: bool
  peek_current_value_result :: HealthValue
  HealthValueInvalid :: HealthValue
  outbox_begin_result :: AppMessageResult
  dict_write_result :: DictionaryResult
  outbox_send_result :: AppMessageResult

text \<open>
  The program's variables: \<open>g_app_state\<close> (main.c), \<open>s_hr_monitoring\<close> (hr.c),
  \<open>s_main_window\<close> and \<open>s_canvas_layer\<close> (ui.c; the pointers as "is not NULL"). The
  last three fields are the platform's side: the calls made so far, whether the health
  handler is subscribed, and the outbound messages handed to the transport whose
  completion callback has not fired yet.
\<close>

record world =
  g_app_state :: AppState
  s_hr_monitoring :: bool
  s_main_window :: bool
  s_canvas_layer :: bool
  trace :: "effect list"
  health_subscribed :: bool
  outbox_unacked :: "Dictionary list"

definition emit :: "effect \<Rightarrow> world \<Rightarrow> world" where
  "emit x w = w\<lparr>trace := trace w @ [x]\<rparr>"

definition app_log :: "AppLogLevel \<Rightarrow> string \<Rightarrow> log_arg list \<Rightarrow> world \<Rightarrow> world" where
  "app_log lvl fmt args w = emit (APP_LOG lvl fmt args) w"

subsection \<open>The transport\<close>

text \<open>
  Modelled from the spec: the outbox of the message transport (the platform's
  \<^verbatim>\<open>app_message_outbox_begin\<close>, \<^verbatim>\<open>dict_write_uint16\<close> and \<^verbatim>\<open>app_message_outbox_send\<close>)
  is not in the sources. By the spec's contract a send begun while a previous send has not
  completed fails with \<open>ChannelBusy\<close> (here \<open>APP_MSG_BUSY\<close>); any other result of the three
  calls is the platform's answer. A message that \<^verbatim>\<open>app_message_outbox_send\<close> accepted
  stays in \<open>outbox_unacked\<close> until its completion callback is delivered.
\<close>

definition app_message_outbox_begin :: "env \<Rightarrow> world \<Rightarrow> AppMessageResult \<times> world" where
  "app_message_outbox_begin e w =
     (let r = (if outbox_unacked w \<noteq> [] then APP_MSG_BUSY else outbox_begin_result e)
      in (r, emit (Call_app_message_outbox_begin r) w))"

definition dict_write_uint16 ::
  "env \<Rightarrow> Dictionary \<Rightarrow> uint32_t \<Rightarrow> uint16_t \<Rightarrow> world \<Rightarrow> DictionaryResult \<times> Dictionary \<times> world" where
  "dict_write_uint16 e iter k v w =
     (let r = dict_write_result e
      in (r, (if r = DICT_OK then iter(k \<mapsto> UInt16 v) else iter),
          emit (Call_dict_write_uint16 k v r) w))"

definition app_message_outbox_send :: "env \<Rightarrow> Dictionary \<Rightarrow> world \<Rightarrow> AppMessageResult \<times> world" where
  "app_message_outbox_send e iter w =
     (let r = outbox_send_result e;
          w1 = emit (Call_app_message_outbox_send r) w
      in (r, if r = APP_MSG_OK then w1\<lparr>outbox_unacked := outbox_unacked w1 @ [iter]\<rparr> else w1))"

subsection \<open>ui.c\<close>

definition main_window_load :: "env \<Rightarrow> world \<Rightarrow> world" where
  "main_window_load e w =
     (let w1 = (emit Call_layer_create w)\<lparr>s_canvas_layer := layer_create_result e\<rparr>;
          w2 = emit Call_layer_set_update_proc w1;
          w3 = emit Call_layer_add_child w2;
          w4 = emit Call_fonts_get_system_font w3
      in emit Call_fonts_get_system_font w4)"

definition main_window_unload :: "world \<Rightarrow> world" where
  "main_window_unload w = emit Call_layer_destroy w"

definition ui_init :: "env \<Rightarrow> world \<Rightarrow> world" where
  "ui_init e w =
     (let w1 = (emit Call_window_create w)\<lparr>s_main_window := window_create_result e\<rparr>;
          w2 = emit Call_window_set_background_color w1;
          w3 = emit Call_window_set_window_handlers w2
      in app_log APP_LOG_LEVEL_INFO ''UI initialized'' [] w3)"

definition ui_update_hr :: "uint16_t \<Rightarrow> world \<Rightarrow> world" where
  "ui_update_hr hr w =
     (let w1 = w\<lparr>g_app_state := (g_app_state w)\<lparr>current_hr := hr\<rparr>\<rparr>
      in if s_canvas_layer w1 then emit Call_layer_mark_dirty w1 else w1)"

definition ui_update_pace :: "char list option \<Rightarrow> world \<Rightarrow> world option" where
  "ui_update_pace pace w =
     (case pace of
        None \<Rightarrow> Some w
      | Some src \<Rightarrow>
          (case strncpy (pace_text (g_app_state w)) src (sizeof_text - 1) of
             None \<Rightarrow> None
           | Some b1 \<Rightarrow>
               (case array_set b1 (sizeof_text - 1) NUL of
                  None \<Rightarrow> None
                | Some b2 \<Rightarrow>
                    (let w1 = w\<lparr>g_app_state := (g_app_state w)\<lparr>pace_text := b2\<rparr>\<rparr>
                     in Some (if s_canvas_layer w1 then emit Call_layer_mark_dirty w1 else w1)))))"

definition ui_update_time :: "char list option \<Rightarrow> world \<Rightarrow> world option" where
  "ui_update_time time w =
     (case time of
        None \<Rightarrow> Some w
      | Some src \<Rightarrow>
          (case strncpy (time_text (g_app_state w)) src (sizeof_text - 1) of
             None \<Rightarrow> None
           | Some b1 \<Rightarrow>
               (case array_set b1 (sizeof_text - 1) NUL of
                  None \<Rightarrow> None
                | Some b2 \<Rightarrow>
                    (let w1 = w\<lparr>g_app_state := (g_app_state w)\<lparr>time_text := b2\<rparr>\<rparr>
                     in Some (if s_canvas_layer w1 then emit Call_layer_mark_dirty w1 else w1)))))"

definition ui_show_window :: "world \<Rightarrow> world" where
  "ui_show_window w =
     (if s_main_window w then
        (let w1 = emit Call_window_stack_push w;
             w2 = w1\<lparr>g_app_state := (g_app_state w1)\<lparr>is_active := True\<rparr>\<rparr>
         in if s_canvas_layer w2 then emit Call_layer_mark_dirty w2 else w2)
      else w)"

definition ui_hide_window :: "world \<Rightarrow> world" where
  "ui_hide_window w =
     (if s_main_window w then
        (let w1 = emit Call_window_stack_remove w
         in w1\<lparr>g_app_state := (g_app_state w1)\<lparr>is_active := False\<rparr>\<rparr>)
      else w)"

subsection \<open>appmsg.c: sending\<close>

definition appmsg_send_hr :: "env \<Rightarrow> uint16_t \<Rightarrow> world \<Rightarrow> world" where
  "appmsg_send_hr e hr_bpm w =
     (case app_message_outbox_begin e w of
        (result, w1) \<Rightarrow>
          if result = APP_MSG_OK then
            (case dict_write_uint16 e Map.empty KEY_HR hr_bpm w1 of
               (dresult, iter, w2) \<Rightarrow>
                 if dresult = DICT_OK then
                   (case app_message_outbox_send e iter w2 of
                      (sresult, w3) \<Rightarrow>
                        if sresult \<noteq> APP_MSG_OK then
                          app_log APP_LOG_LEVEL_ERROR ''Failed to send HR message: %d''
                            [ArgMsgResult sresult] w3
                        else w3)
                 else
                   app_log APP_LOG_LEVEL_ERROR ''Failed to write HR to dictionary: %d''
                     [ArgDictResult dresult] w2)
          else
            app_log APP_LOG_LEVEL_ERROR ''Failed to begin outbox: %d'' [ArgMsgResult result] w1)"

subsection \<open>hr.c\<close>

definition hr_event_handler :: "env \<Rightarrow> HealthEventType \<Rightarrow> world \<Rightarrow> world" where
  "hr_event_handler e event w =
     (if event = HealthEventHeartRateUpdate then
        (let hr_value = peek_current_value_result e
         in if hr_value \<noteq> HealthValueInvalid e then
              (let hr_bpm = (ucast hr_value :: uint16_t);
                   w1 = ui_update_hr hr_bpm w;
                   w2 = appmsg_send_hr e hr_bpm w1
               in app_log APP_LOG_LEVEL_INFO ''HR: %d BPM'' [ArgInt (uint hr_bpm)] w2)
            else app_log APP_LOG_LEVEL_WARNING ''Invalid HR reading'' [] w)
      else w)"

definition hr_init :: "env \<Rightarrow> world \<Rightarrow> world" where
  "hr_init e w =
     (let w1 = emit Call_health_service_events_subscribe w
      in if \<not> health_service_events_subscribe_result e then
           app_log APP_LOG_LEVEL_ERROR ''Failed to subscribe to health events'' [] w1
         else
           app_log APP_LOG_LEVEL_INFO ''HR monitoring initialized'' []
             (w1\<lparr>health_subscribed := True\<rparr>))"

definition hr_start_monitoring :: "env \<Rightarrow> world \<Rightarrow> world" where
  "hr_start_monitoring e w =
     (if s_hr_monitoring w then
        app_log APP_LOG_LEVEL_WARNING ''HR monitoring already active'' [] w
      else
        (let w1 = emit (Call_health_service_set_heart_rate_sample_period 1) w
         in if set_heart_rate_sample_period_result e then
              app_log APP_LOG_LEVEL_INFO ''HR monitoring started (1s interval)'' []
                (w1\<lparr>s_hr_monitoring := True\<rparr>)
            else app_log APP_LOG_LEVEL_ERROR ''Failed to set HR sample period'' [] w1))"

definition hr_stop_monitoring :: "env \<Rightarrow> world \<Rightarrow> world" where
  "hr_stop_monitoring e w =
     (if \<not> s_hr_monitoring w then
        app_log APP_LOG_LEVEL_WARNING ''HR monitoring not active'' [] w
      else
        (let w1 = emit (Call_health_service_set_heart_rate_sample_period 0) w;
             w2 = w1\<lparr>s_hr_monitoring := False\<rparr>;
             w3 = ui_update_hr 0 w2
         in app_log APP_LOG_LEVEL_INFO ''HR monitoring stopped'' [] w3))"

subsection \<open>appmsg.c: receiving\<close>

definition appmsg_handle_command :: "env \<Rightarrow> uint8_t \<Rightarrow> world \<Rightarrow> world" where
  "appmsg_handle_command e cmd w =
     (let w0 = app_log APP_LOG_LEVEL_INFO ''Received command: %d'' [ArgInt (uint cmd)] w
      in if cmd = CMD_START then
           (let w1 = app_log APP_LOG_LEVEL_INFO ''Starting workout session'' [] w0;
                w2 = ui_show_window w1
            in hr_start_monitoring e w2)
         else if cmd = CMD_STOP then
           (let w1 = app_log APP_LOG_LEVEL_INFO ''Stopping workout session'' [] w0;
                w2 = hr_stop_monitoring e w1;
                w3 = ui_hide_window w2
            in emit Call_window_stack_pop_all w3)
         else app_log APP_LOG_LEVEL_WARNING ''Unknown command: %d'' [ArgInt (uint cmd)] w0)"

definition appmsg_handle_pace_update :: "char list option \<Rightarrow> world \<Rightarrow> world option" where
  "appmsg_handle_pace_update pace w =
     (case pace of
        None \<Rightarrow> Some w
      | Some s \<Rightarrow>
          ui_update_pace pace (app_log APP_LOG_LEVEL_DEBUG ''Pace update: %s'' [ArgStr s] w))"

definition appmsg_handle_time_update :: "char list option \<Rightarrow> world \<Rightarrow> world option" where
  "appmsg_handle_time_update time w =
     (case time of
        None \<Rightarrow> Some w
      | Some s \<Rightarrow>
          ui_update_time time (app_log APP_LOG_LEVEL_DEBUG ''Time update: %s'' [ArgStr s] w))"

definition inbox_received_callback :: "env \<Rightarrow> Dictionary \<Rightarrow> world \<Rightarrow> world option" where
  "inbox_received_callback e iterator w =
     (let w0 = app_log APP_LOG_LEVEL_INFO ''AppMessage received'' [] w;
          r1 = (case dict_find iterator KEY_PACE of
                  Some (CString s) \<Rightarrow> appmsg_handle_pace_update (Some s) w0
                | _ \<Rightarrow> Some w0)
      in case r1 of
           None \<Rightarrow> None
         | Some w1 \<Rightarrow>
             (case (case dict_find iterator KEY_TIME of
                      Some (CString s) \<Rightarrow> appmsg_handle_time_update (Some s) w1
                    | _ \<Rightarrow> Some w1) of
                None \<Rightarrow> None
              | Some w2 \<Rightarrow>
                  (case dict_find iterator KEY_CMD of
                     Some (UInt8 c) \<Rightarrow> Some (appmsg_handle_command e c w2)
                   | _ \<Rightarrow> Some w2)))"

definition inbox_dropped_callback :: "AppMessageResult \<Rightarrow> world \<Rightarrow> world" where
  "inbox_dropped_callback reason w =
     app_log APP_LOG_LEVEL_ERROR ''AppMessage inbox dropped: %d'' [ArgMsgResult reason] w"

definition outbox_sent_callback :: "world \<Rightarrow> world" where
  "outbox_sent_callback w = app_log APP_LOG_LEVEL_DEBUG ''AppMessage sent successfully'' [] w"

definition outbox_failed_callback :: "AppMessageResult \<Rightarrow> world \<Rightarrow> world" where
  "outbox_failed_callback reason w =
     app_log APP_LOG_LEVEL_ERROR ''AppMessage send failed: %d'' [ArgMsgResult reason] w"

definition OUTBOX_SIZE :: nat where "OUTBOX_SIZE = 64"
definition INBOX_SIZE :: nat where "INBOX_SIZE = 128"

definition appmsg_init :: "env \<Rightarrow> world \<Rightarrow> world" where
  "appmsg_init e w =
     (let w1 = emit Call_app_message_register_inbox_received w;
          w2 = emit Call_app_message_register_inbox_dropped w1;
          w3 = emit Call_app_message_register_outbox_sent w2;
          w4 = emit Call_app_message_register_outbox_failed w3;
          result = app_message_open_result e;
          w5 = emit (Call_app_message_open INBOX_SIZE OUTBOX_SIZE) w4
      in if result = APP_MSG_OK then
           app_log APP_LOG_LEVEL_INFO ''AppMessage initialized successfully'' [] w5
         else
           app_log APP_LOG_LEVEL_ERROR ''AppMessage initialization failed: %d''
             [ArgMsgResult result] w5)"

subsection \<open>main.c\<close>

definition g_app_state_init :: AppState where
  "g_app_state_init =
     \<lparr>is_active = False, current_hr = 0,
      pace_text = ''--:--/km'' @ replicate 8 NUL,
      time_text = ''00:00:00'' @ replicate 8 NUL\<rparr>"

definition world_init :: world where
  "world_init =
     \<lparr>g_app_state = g_app_state_init, s_hr_monitoring = False, s_main_window = False,
      s_canvas_layer = False, trace = [], health_subscribed = False, outbox_unacked = []\<rparr>"

definition init :: "env \<Rightarrow> world" where
  "init e =
     (let w1 = ui_init e world_init;
          w2 = hr_init e w1;
          w3 = appmsg_init e w2
      in app_log APP_LOG_LEVEL_INFO ''PebbleRun initialized'' [] w3)"

subsection \<open>The event loop\<close>

text \<open>
  \<^verbatim>\<open>app_event_loop\<close> delivers the callbacks one at a time. A health event reaches the
  handler only when the subscription succeeded, a completion callback only when a message
  is awaiting completion (it leaves the outbox then), and the window handlers only for an
  existing window; at which moment the platform runs the window handlers is left open. An
  event that cannot be delivered leaves the world as it is.
\<close>

datatype event =
  Ev_inbox_received Dictionary
| Ev_inbox_dropped AppMessageResult
| Ev_outbox_sent
| Ev_outbox_failed AppMessageResult
| Ev_health HealthEventType
| Ev_window_load
| Ev_window_unload

fun deliver :: "env \<Rightarrow> event \<Rightarrow> world \<Rightarrow> world option" where
  "deliver e (Ev_inbox_received d) w = inbox_received_callback e d w"
| "deliver e (Ev_inbox_dropped r) w = Some (inbox_dropped_callback r w)"
| "deliver e Ev_outbox_sent w =
     (case outbox_unacked w of
        [] \<Rightarrow> Some w
      | m # ms \<Rightarrow> Some (outbox_sent_callback (w\<lparr>outbox_unacked := ms\<rparr>)))"
| "deliver e (Ev_outbox_failed r) w =
     (case outbox_unacked w of
        [] \<Rightarrow> Some w
      | m # ms \<Rightarrow> Some (outbox_failed_callback r (w\<lparr>outbox_unacked := ms\<rparr>)))"
| "deliver e (Ev_health ev) w =
     Some (if health_subscribed w then hr_event_handler e ev w else w)"
| "deliver e Ev_window_load w = Some (if s_main_window w then main_window_load e w else w)"
| "deliver e Ev_window_unload w = Some (if s_main_window w then main_window_unload w else w)"

fun run :: "(env \<times> event) list \<Rightarrow> world \<Rightarrow> world option" where
  "run [] w = Some w"
| "run ((e, ev) # rest) w =
     (case deliver e ev w of None \<Rightarrow> None | Some w' \<Rightarrow> run rest w')"

subsection \<open>Observations on traces and states\<close>

text \<open>The reports of one level among a list of effects.\<close>

definition is_report :: "AppLogLevel \<Rightarrow> effect \<Rightarrow> bool" where
  "is_report lvl x = (case x of APP_LOG l fmt args \<Rightarrow> l = lvl | _ \<Rightarrow> False)"

text \<open>The effects a step added: the part of the trace of \<open>w'\<close> after the trace of \<open>w\<close>.\<close>

definition new_effects :: "world \<Rightarrow> world \<Rightarrow> effect list" where
  "new_effects w w' = drop (length (trace w)) (trace w')"

text \<open>
  The reports of hr.c mark the life of the Sensor Monitor in the trace: \<^verbatim>\<open>"HR: %d BPM"\<close>
  is made exactly where a valid sample is applied, \<^verbatim>\<open>"HR monitoring started (1s interval)"\<close>
  where the monitor goes to Sampling and \<^verbatim>\<open>"HR monitoring stopped"\<close> where it goes to Stopped
  and the heart rate is cleared.
\<close>

definition is_hr_report :: "effect \<Rightarrow> bool" where
  "is_hr_report x = (case x of APP_LOG l fmt args \<Rightarrow> fmt = ''HR: %d BPM'' | _ \<Rightarrow> False)"

definition is_start_report :: "effect \<Rightarrow> bool" where
  "is_start_report x =
     (case x of APP_LOG l fmt args \<Rightarrow> fmt = ''HR monitoring started (1s interval)''
      | _ \<Rightarrow> False)"

definition is_stop_report :: "effect \<Rightarrow> bool" where
  "is_stop_report x =
     (case x of APP_LOG l fmt args \<Rightarrow> fmt = ''HR monitoring stopped'' | _ \<Rightarrow> False)"

text \<open>
  The spec's words, "monitoring has produced a reading": a sample was applied while the
  monitor was Sampling, and the monitor has not stopped since. The state of the scan is
  the pair (the monitor is Sampling, it has produced a reading).
\<close>

definition monitor_step :: "bool \<times> bool \<Rightarrow> effect \<Rightarrow> bool \<times> bool" where
  "monitor_step st x =
     (if is_start_report x then (True, snd st)
      else if is_stop_report x then (False, False)
      else if is_hr_report x then (fst st, snd st \<or> fst st)
      else st)"

definition monitor_produced_reading :: "effect list \<Rightarrow> bool" where
  "monitor_produced_reading tr = snd (foldl monitor_step (False, False) tr)"

text \<open>The predicate of the data model on the session state, in the spec's words.\<close>

definition session_pred :: "world \<Rightarrow> bool" where
  "session_pred w =
     (\<not> is_active (g_app_state w) \<and> \<not> monitor_produced_reading (trace w)
        \<longrightarrow> current_hr (g_app_state w) = 0)"

text \<open>
  What the code keeps instead: a sample has been applied, in whatever state of the monitor,
  since the process started or the monitor last stopped.
\<close>

definition hr_step :: "bool \<Rightarrow> effect \<Rightarrow> bool" where
  "hr_step b x = (if is_hr_report x then True else if is_stop_report x then False else b)"

definition sample_since_stop :: "effect list \<Rightarrow> bool" where
  "sample_since_stop tr = foldl hr_step False tr"

definition session_pred_amended :: "world \<Rightarrow> bool" where
  "session_pred_amended w =
     (\<not> is_active (g_app_state w) \<and> \<not> sample_since_stop (trace w)
        \<longrightarrow> current_hr (g_app_state w) = 0)"

text \<open>
  What holds of every world the event loop reaches: the session is shown only on an
  existing window, the heart rate is 0 unless a sample was applied since the last stop, at
  most one outbound message awaits completion, and the text arrays have their declared
  size.
\<close>

definition world_inv :: "world \<Rightarrow> bool" where
  "world_inv w =
     ((is_active (g_app_state w) \<longrightarrow> s_main_window w) \<and>
      (\<not> sample_since_stop (trace w) \<longrightarrow> current_hr (g_app_state w) = 0) \<and>
      length (outbox_unacked w) \<le> 1 \<and>
      wf_AppState (g_app_state w))"

text \<open>
  The wire protocol's declared types, in the spec's words: PACE and TIME carry a string,
  CMD an unsigned 8-bit integer. \<open>well_typed_part\<close> keeps of a message the fields with a
  known inbound key and a value of the declared type.
\<close>

definition declared_type :: "uint32_t \<Rightarrow> TupleType option" where
  "declared_type k =
     (if k = KEY_PACE \<or> k = KEY_TIME then Some TUPLE_CSTRING
      else if k = KEY_CMD then Some TUPLE_UINT8
      else None)"

definition well_typed_part :: "Dictionary \<Rightarrow> Dictionary" where
  "well_typed_part d k =
     (case d k of
        None \<Rightarrow> None
      | Some v \<Rightarrow> if declared_type k = Some (tuple_type v) then Some v else None)"

subsection \<open>Concrete platforms and worlds\<close>

text \<open>A platform on which every call succeeds and the sensor reads 142 BPM.\<close>

definition env_ok :: env where
  "env_ok =
     \<lparr>window_create_result = True, layer_create_result = True,
      health_service_events_subscribe_result = True, app_message_open_result = APP_MSG_OK,
      set_heart_rate_sample_period_result = True, peek_current_value_result = 142,
      HealthValueInvalid = - 1, outbox_begin_result = APP_MSG_OK,
      dict_write_result = DICT_OK, outbox_send_result = APP_MSG_OK\<rparr>"

text \<open>The same platform, refusing to configure the sampling period.\<close>

definition env_period_fails :: env where
  "env_period_fails = env_ok\<lparr>set_heart_rate_sample_period_result := False\<rparr>"

text \<open>The world after \<^verbatim>\<open>init()\<close>, and after a message with a start command was received in it.\<close>

definition world_idle :: world where
  "world_idle = init env_ok"

definition world_sampling :: world where
  "world_sampling =
     appmsg_handle_command env_ok CMD_START
       (app_log APP_LOG_LEVEL_INFO ''AppMessage received'' [] world_idle)"

text \<open>
  A session with a reading: the window is loaded, the start command is received and the
  sensor delivers the sample 142. Then the stop command is received. \<open>world_unstarted_hr\<close>
  is the world in which the sample arrives right after \<^verbatim>\<open>init()\<close>, the monitor never
  started.
\<close>

definition world_loaded :: world where
  "world_loaded = main_window_load env_ok world_idle"

definition world_reading :: world where
  "world_reading =
     hr_event_handler env_ok HealthEventHeartRateUpdate
       (appmsg_handle_command env_ok CMD_START
         (app_log APP_LOG_LEVEL_INFO ''AppMessage received'' [] world_loaded))"

definition world_stopped :: world where
  "world_stopped =
     appmsg_handle_command env_ok CMD_STOP
       (app_log APP_LOG_LEVEL_INFO ''AppMessage received'' [] world_reading)"

definition world_unstarted_hr :: world where
  "world_unstarted_hr = hr_event_handler env_ok HealthEventHeartRateUpdate world_idle"

definition session_events :: "(env \<times> event) list" where
  "session_events =
     [(env_ok, Ev_window_load),
      (env_ok, Ev_inbox_received [KEY_CMD \<mapsto> UInt8 CMD_START]),
      (env_ok, Ev_health HealthEventHeartRateUpdate)]"

text \<open>A platform whose sensor reads 70000, beyond 16 bits.\<close>

definition env_hr_70000 :: env where
  "env_hr_70000 = env_ok\<lparr>peek_current_value_result := 70000\<rparr>"

section \<open>Auxiliary facts\<close>

subsection \<open>What each function does to the world\<close>

lemmas key_defs = KEY_PACE_def KEY_TIME_def KEY_HR_def KEY_CMD_def
lemmas step_defs = emit_def app_log_def Let_def

lemma strncpy_Some:
  "n \<le> length dst \<Longrightarrow>
     strncpy dst src n = Some (map (strncpy_char src) [0..<n] @ drop n dst)"
proof (induction n)
  case 0
  then show ?case by simp
next
  case (Suc n)
  then have n: "n < length dst" by simp
  have prev: "strncpy dst src n = Some (map (strncpy_char src) [0..<n] @ drop n dst)"
    using Suc by simp
  have "(map (strncpy_char src) [0..<n] @ drop n dst)[n := strncpy_char src n]
          = map (strncpy_char src) [0..<n] @ (drop n dst)[0 := strncpy_char src n]"
    by (simp add: list_update_append)
  also have "(drop n dst)[0 := strncpy_char src n] = strncpy_char src n # drop (Suc n) dst"
    using n by (simp add: Cons_nth_drop_Suc [symmetric])
  finally show ?case
    using n prev by (simp add: array_set_def)
qed

lemma text_store:
  assumes "length buf = sizeof_text"
  obtains b1 where "strncpy buf src (sizeof_text - 1) = Some b1"
    and "array_set b1 (sizeof_text - 1) NUL
           = Some (map (strncpy_char src) [0..<sizeof_text - 1] @ [NUL])"
proof -
  have le: "sizeof_text - 1 \<le> length buf" using assms by simp
  have d: "drop (sizeof_text - 1) buf = [buf ! (sizeof_text - 1)]"
    using assms by (simp add: sizeof_text_def Cons_nth_drop_Suc [symmetric])
  have s: "strncpy buf src (sizeof_text - 1)
             = Some (map (strncpy_char src) [0..<sizeof_text - 1] @ [buf ! (sizeof_text - 1)])"
    using strncpy_Some [OF le, of src] by (simp only: d)
  have "array_set (map (strncpy_char src) [0..<sizeof_text - 1] @ [buf ! (sizeof_text - 1)])
          (sizeof_text - 1) NUL
        = Some (map (strncpy_char src) [0..<sizeof_text - 1] @ [NUL])"
    by (simp add: array_set_def list_update_append del: One_nat_def)
  with s that show thesis by blast
qed

lemma strncpy_char_long:
  assumes "n \<le> strlen src"
  shows "map (strncpy_char src) [0..<n] = take n src"
proof -
  have "strlen src \<le> length src"
    by (simp add: strlen_def length_takeWhile_le)
  with assms have "n \<le> length src" by simp
  then show ?thesis
    using assms by (intro nth_equalityI) (simp_all add: strncpy_char_def)
qed

lemma ui_update_pace_eq:
  assumes "wf_AppState (g_app_state w)"
  shows "ui_update_pace (Some src) w =
           Some (w\<lparr>g_app_state := (g_app_state w)
                     \<lparr>pace_text := map (strncpy_char src) [0..<sizeof_text - 1] @ [NUL]\<rparr>,
                   trace := trace w @ (if s_canvas_layer w then [Call_layer_mark_dirty] else [])\<rparr>)"
proof -
  have "length (pace_text (g_app_state w)) = sizeof_text"
    using assms by (simp add: wf_AppState_def)
  from text_store [OF this, of src] obtain b1
    where "strncpy (pace_text (g_app_state w)) src (sizeof_text - 1) = Some b1"
      and "array_set b1 (sizeof_text - 1) NUL
             = Some (map (strncpy_char src) [0..<sizeof_text - 1] @ [NUL])"
    by blast
  then show ?thesis
    by (simp add: ui_update_pace_def emit_def Let_def)
qed

lemma ui_update_time_eq:
  assumes "wf_AppState (g_app_state w)"
  shows "ui_update_time (Some src) w =
           Some (w\<lparr>g_app_state := (g_app_state w)
                     \<lparr>time_text := map (strncpy_char src) [0..<sizeof_text - 1] @ [NUL]\<rparr>,
                   trace := trace w @ (if s_canvas_layer w then [Call_layer_mark_dirty] else [])\<rparr>)"
proof -
  have "length (time_text (g_app_state w)) = sizeof_text"
    using assms by (simp add: wf_AppState_def)
  from text_store [OF this, of src] obtain b1
    where "strncpy (time_text (g_app_state w)) src (sizeof_text - 1) = Some b1"
      and "array_set b1 (sizeof_text - 1) NUL
             = Some (map (strncpy_char src) [0..<sizeof_text - 1] @ [NUL])"
    by blast
  then show ?thesis
    by (simp add: ui_update_time_def emit_def Let_def)
qed

lemma appmsg_handle_pace_update_eq:
  assumes "wf_AppState (g_app_state w)"
  shows "appmsg_handle_pace_update (Some src) w =
           Some (w\<lparr>g_app_state := (g_app_state w)
                     \<lparr>pace_text := map (strncpy_char src) [0..<sizeof_text - 1] @ [NUL]\<rparr>,
                   trace := trace w @ [APP_LOG APP_LOG_LEVEL_DEBUG ''Pace update: %s'' [ArgStr src]]
                     @ (if s_canvas_layer w then [Call_layer_mark_dirty] else [])\<rparr>)"
proof -
  have "wf_AppState (g_app_state (app_log APP_LOG_LEVEL_DEBUG ''Pace update: %s'' [ArgStr src] w))"
    using assms by (simp add: step_defs)
  from ui_update_pace_eq [OF this, of src] show ?thesis
    by (simp add: appmsg_handle_pace_update_def step_defs)
qed

lemma appmsg_handle_time_update_eq:
  assumes "wf_AppState (g_app_state w)"
  shows "appmsg_handle_time_update (Some src) w =
           Some (w\<lparr>g_app_state := (g_app_state w)
                     \<lparr>time_text := map (strncpy_char src) [0..<sizeof_text - 1] @ [NUL]\<rparr>,
                   trace := trace w @ [APP_LOG APP_LOG_LEVEL_DEBUG ''Time update: %s'' [ArgStr src]]
                     @ (if s_canvas_layer w then [Call_layer_mark_dirty] else [])\<rparr>)"
proof -
  have "wf_AppState (g_app_state (app_log APP_LOG_LEVEL_DEBUG ''Time update: %s'' [ArgStr src] w))"
    using assms by (simp add: step_defs)
  from ui_update_time_eq [OF this, of src] show ?thesis
    by (simp add: appmsg_handle_time_update_def step_defs)
qed

lemmas ghost_defs = hr_step_def is_hr_report_def is_stop_report_def is_start_report_def

lemma sample_since_stop_append [simp]:
  "sample_since_stop (xs @ ys) = foldl hr_step (sample_since_stop xs) ys"
  by (simp add: sample_since_stop_def)

lemma sample_since_stop_Nil [simp]: "sample_since_stop [] = False"
  by (simp add: sample_since_stop_def)

lemma world_inv_init: "world_inv (init e)"
  by (simp add: world_inv_def init_def ui_init_def hr_init_def appmsg_init_def world_init_def
      g_app_state_init_def wf_AppState_def sizeof_text_def step_defs ghost_defs)

lemma world_inv_pace:
  assumes "world_inv w"
  shows "\<exists>w'. appmsg_handle_pace_update (Some src) w = Some w' \<and> world_inv w'"
proof -
  have "wf_AppState (g_app_state w)" using assms by (simp add: world_inv_def)
  from appmsg_handle_pace_update_eq [OF this, of src] assms show ?thesis
    by (simp add: world_inv_def wf_AppState_def sizeof_text_def ghost_defs)
qed

lemma world_inv_time:
  assumes "world_inv w"
  shows "\<exists>w'. appmsg_handle_time_update (Some src) w = Some w' \<and> world_inv w'"
proof -
  have "wf_AppState (g_app_state w)" using assms by (simp add: world_inv_def)
  from appmsg_handle_time_update_eq [OF this, of src] assms show ?thesis
    by (simp add: world_inv_def wf_AppState_def sizeof_text_def ghost_defs)
qed

lemma ui_show_window_eq:
  "ui_show_window w =
     (if s_main_window w then
        w\<lparr>g_app_state := (g_app_state w)\<lparr>is_active := True\<rparr>,
          trace := trace w @ [Call_window_stack_push] @
            (if s_canvas_layer w then [Call_layer_mark_dirty] else [])\<rparr>
      else w)"
  by (simp add: ui_show_window_def step_defs)

lemma ui_hide_window_eq:
  "ui_hide_window w =
     (if s_main_window w then
        w\<lparr>g_app_state := (g_app_state w)\<lparr>is_active := False\<rparr>,
          trace := trace w @ [Call_window_stack_remove]\<rparr>
      else w)"
  by (simp add: ui_hide_window_def step_defs)

lemma hr_stop_monitoring_eq:
  "hr_stop_monitoring e w =
     (if \<not> s_hr_monitoring w then
        w\<lparr>trace := trace w @ [APP_LOG APP_LOG_LEVEL_WARNING ''HR monitoring not active'' []]\<rparr>
      else
        w\<lparr>g_app_state := (g_app_state w)\<lparr>current_hr := 0\<rparr>, s_hr_monitoring := False,
          trace := trace w @ [Call_health_service_set_heart_rate_sample_period 0] @
            (if s_canvas_layer w then [Call_layer_mark_dirty] else []) @
            [APP_LOG APP_LOG_LEVEL_INFO ''HR monitoring stopped'' []]\<rparr>)"
  by (simp add: hr_stop_monitoring_def ui_update_hr_def step_defs)

lemma hr_start_monitoring_eq:
  "hr_start_monitoring e w =
     (if s_hr_monitoring w then
        w\<lparr>trace := trace w @ [APP_LOG APP_LOG_LEVEL_WARNING ''HR monitoring already active'' []]\<rparr>
      else if set_heart_rate_sample_period_result e then
        w\<lparr>s_hr_monitoring := True,
          trace := trace w @ [Call_health_service_set_heart_rate_sample_period 1,
            APP_LOG APP_LOG_LEVEL_INFO ''HR monitoring started (1s interval)'' []]\<rparr>
      else
        w\<lparr>trace := trace w @ [Call_health_service_set_heart_rate_sample_period 1,
            APP_LOG APP_LOG_LEVEL_ERROR ''Failed to set HR sample period'' []]\<rparr>)"
  by (simp add: hr_start_monitoring_def step_defs)

lemma world_inv_start: "world_inv w \<Longrightarrow> world_inv (hr_start_monitoring e w)"
  by (simp add: hr_start_monitoring_eq world_inv_def ghost_defs)

lemma world_inv_stop: "world_inv w \<Longrightarrow> world_inv (hr_stop_monitoring e w)"
  by (simp add: hr_stop_monitoring_eq world_inv_def ghost_defs wf_AppState_def)

lemma world_inv_show: "world_inv w \<Longrightarrow> world_inv (ui_show_window w)"
  by (auto simp: ui_show_window_eq world_inv_def ghost_defs wf_AppState_def)

lemma world_inv_hide: "world_inv w \<Longrightarrow> world_inv (ui_hide_window w)"
  by (auto simp: ui_hide_window_eq world_inv_def ghost_defs wf_AppState_def)

lemma world_inv_emit:
  "world_inv w \<Longrightarrow> \<not> is_hr_report x \<Longrightarrow> \<not> is_stop_report x \<Longrightarrow> world_inv (emit x w)"
  by (simp add: world_inv_def emit_def hr_step_def)

lemma world_inv_command: "world_inv w \<Longrightarrow> world_inv (appmsg_handle_command e cmd w)"
  unfolding appmsg_handle_command_def Let_def app_log_def
  by (auto intro!: world_inv_start world_inv_stop world_inv_show world_inv_hide world_inv_emit
      simp: ghost_defs)

lemma appmsg_send_hr_frame [simp]:
  "g_app_state (appmsg_send_hr e v w) = g_app_state w"
  "s_main_window (appmsg_send_hr e v w) = s_main_window w"
  "s_canvas_layer (appmsg_send_hr e v w) = s_canvas_layer w"
  "s_hr_monitoring (appmsg_send_hr e v w) = s_hr_monitoring w"
  "health_subscribed (appmsg_send_hr e v w) = health_subscribed w"
  by (simp_all add: appmsg_send_hr_def app_message_outbox_begin_def
      dict_write_uint16_def app_message_outbox_send_def step_defs)

lemma appmsg_send_hr_slot:
  "length (outbox_unacked w) \<le> 1 \<Longrightarrow> length (outbox_unacked (appmsg_send_hr e v w)) \<le> 1"
  by (cases "outbox_unacked w")
    (simp_all add: appmsg_send_hr_def app_message_outbox_begin_def
      dict_write_uint16_def app_message_outbox_send_def step_defs)

lemma world_inv_hr_event:
  assumes "world_inv w"
  shows "world_inv (hr_event_handler e ev w)"
proof (cases "ev = HealthEventHeartRateUpdate \<and> peek_current_value_result e \<noteq> HealthValueInvalid e")
  case True
  let ?v = "ucast (peek_current_value_result e) :: uint16_t"
  have "length (outbox_unacked (ui_update_hr ?v w)) \<le> 1"
    using assms by (simp add: world_inv_def ui_update_hr_def step_defs)
  from appmsg_send_hr_slot [OF this, of e ?v] assms True show ?thesis
    by (simp add: world_inv_def hr_event_handler_def step_defs ghost_defs
        ui_update_hr_def wf_AppState_def)
next
  case False
  with assms show ?thesis
    by (auto simp: world_inv_def hr_event_handler_def step_defs ghost_defs)
qed

lemma world_inv_pace_field:
  assumes "world_inv w"
  shows "\<exists>w'. (case t of
                 Some (CString s) \<Rightarrow> appmsg_handle_pace_update (Some s) w
               | _ \<Rightarrow> Some w) = Some w' \<and> world_inv w'"
proof (cases t)
  case None
  with assms show ?thesis by simp
next
  case (Some v)
  with assms world_inv_pace [OF assms] show ?thesis by (cases v) simp_all
qed

lemma world_inv_time_field:
  assumes "world_inv w"
  shows "\<exists>w'. (case t of
                 Some (CString s) \<Rightarrow> appmsg_handle_time_update (Some s) w
               | _ \<Rightarrow> Some w) = Some w' \<and> world_inv w'"
proof (cases t)
  case None
  with assms show ?thesis by simp
next
  case (Some v)
  with assms world_inv_time [OF assms] show ?thesis by (cases v) simp_all
qed

lemma world_inv_cmd_field:
  assumes "world_inv w"
  shows "\<exists>w'. (case t of
                 Some (UInt8 c) \<Rightarrow> Some (appmsg_handle_command e c w)
               | _ \<Rightarrow> Some w) = Some w' \<and> world_inv w'"
proof (cases t)
  case None
  with assms show ?thesis by simp
next
  case (Some v)
  with assms world_inv_command [OF assms] show ?thesis by (cases v) simp_all
qed

lemma world_inv_inbox:
  assumes "world_inv w"
  shows "\<exists>w'. inbox_received_callback e d w = Some w' \<and> world_inv w'"
proof -
  let ?w0 = "app_log APP_LOG_LEVEL_INFO ''AppMessage received'' [] w"
  have w0: "world_inv ?w0"
    using assms unfolding app_log_def by (intro world_inv_emit) (simp_all add: ghost_defs)
  from world_inv_pace_field [OF w0, of "dict_find d KEY_PACE"]
  obtain w1 where r1: "(case dict_find d KEY_PACE of
                  Some (CString s) \<Rightarrow> appmsg_handle_pace_update (Some s) ?w0
                | _ \<Rightarrow> Some ?w0) = Some w1" and w1: "world_inv w1"
    by blast
  from world_inv_time_field [OF w1, of "dict_find d KEY_TIME"]
  obtain w2 where r2: "(case dict_find d KEY_TIME of
                      Some (CString s) \<Rightarrow> appmsg_handle_time_update (Some s) w1
                    | _ \<Rightarrow> Some w1) = Some w2" and w2: "world_inv w2"
    by blast
  from world_inv_cmd_field [OF w2, of e "dict_find d KEY_CMD"]
  show ?thesis
    unfolding inbox_received_callback_def Let_def r1 option.case r2 by simp
qed

lemma world_inv_deliver:
  assumes "world_inv w"
  shows "\<exists>w'. deliver e ev w = Some w' \<and> world_inv w'"
proof (cases ev)
  case (Ev_inbox_received d)
  then show ?thesis using world_inv_inbox [OF assms] by simp
next
  case (Ev_inbox_dropped r)
  then show ?thesis using assms
    by (auto simp: inbox_dropped_callback_def world_inv_def step_defs ghost_defs)
next
  case Ev_outbox_sent
  then show ?thesis using assms
    by (auto simp: outbox_sent_callback_def world_inv_def step_defs ghost_defs
        split: list.splits)
next
  case (Ev_outbox_failed r)
  then show ?thesis using assms
    by (auto simp: outbox_failed_callback_def world_inv_def step_defs ghost_defs
        split: list.splits)
next
  case (Ev_health t)
  then show ?thesis using assms by (simp add: world_inv_hr_event)
next
  case Ev_window_load
  then show ?thesis using assms
    by (auto simp: main_window_load_def world_inv_def step_defs ghost_defs)
next
  case Ev_window_unload
  then show ?thesis using assms
    by (auto simp: main_window_unload_def world_inv_def step_defs ghost_defs)
qed

lemma world_inv_run:
  "world_inv w \<Longrightarrow> \<exists>w'. run evs w = Some w' \<and> world_inv w'"
proof (induction evs arbitrary: w)
  case Nil
  then show ?case by simp
next
  case (Cons x evs)
  obtain e ev where x: "x = (e, ev)" by (cases x)
  from world_inv_deliver [OF Cons.prems, of e ev]
  obtain w1 where d: "deliver e ev w = Some w1" and w1: "world_inv w1" by blast
  from Cons.IH [OF w1] show ?case by (simp add: x d)
qed

lemma reachable_inv: "run evs (init e0) = Some w \<Longrightarrow> world_inv w"
  using world_inv_run [OF world_inv_init, of evs e0] by auto

subsection \<open>The concrete worlds\<close>

lemmas boot_defs = init_def ui_init_def hr_init_def appmsg_init_def world_init_def
  g_app_state_init_def OUTBOX_SIZE_def INBOX_SIZE_def

lemma world_inv_session_pred: "world_inv w \<Longrightarrow> session_pred_amended w"
  by (simp add: world_inv_def session_pred_amended_def)

lemma appmsg_handle_command_stop_eq:
  assumes "s_hr_monitoring w" and "s_main_window w"
  shows "appmsg_handle_command e CMD_STOP w =
           w\<lparr>g_app_state := (g_app_state w)\<lparr>current_hr := 0, is_active := False\<rparr>,
             s_hr_monitoring := False,
             trace := trace w @
               [APP_LOG APP_LOG_LEVEL_INFO ''Received command: %d'' [ArgInt 2],
                APP_LOG APP_LOG_LEVEL_INFO ''Stopping workout session'' [],
                Call_health_service_set_heart_rate_sample_period 0] @
               (if s_canvas_layer w then [Call_layer_mark_dirty] else []) @
               [APP_LOG APP_LOG_LEVEL_INFO ''HR monitoring stopped'' [],
                Call_window_stack_remove, Call_window_stack_pop_all]\<rparr>"
  using assms
  by (simp add: appmsg_handle_command_def CMD_START_def CMD_STOP_def hr_stop_monitoring_eq
      ui_hide_window_eq step_defs)

lemma run_start_sampling:
  "run [(env_ok, Ev_inbox_received [KEY_CMD \<mapsto> UInt8 CMD_START])] (init env_ok)
     = Some world_sampling"
  by (simp add: world_sampling_def world_idle_def inbox_received_callback_def dict_find_def
      key_defs)

lemma world_sampling_fields:
  "is_active (g_app_state world_sampling)" "s_hr_monitoring world_sampling"
  "\<not> s_canvas_layer world_sampling" "s_main_window world_sampling"
  by (simp_all add: world_sampling_def world_idle_def appmsg_handle_command_def CMD_START_def
      hr_start_monitoring_eq ui_show_window_eq boot_defs env_ok_def step_defs)

lemma world_idle_fields:
  "\<not> is_active (g_app_state world_idle)" "\<not> s_hr_monitoring world_idle"
  "\<not> s_canvas_layer world_idle" "s_main_window world_idle"
  "current_hr (g_app_state world_idle) = 0" "outbox_unacked world_idle = []"
  "health_subscribed world_idle" "\<not> sample_since_stop (trace world_idle)"
  by (simp_all add: world_idle_def boot_defs env_ok_def step_defs ghost_defs
      sample_since_stop_def)

subsection \<open>Strings, sends and dispatch\<close>

lemma take_before_terminator:
  assumes "n \<le> strlen src"
  shows "c_str (take n src @ [NUL]) = take n src"
proof -
  let ?P = "\<lambda>c. c \<noteq> NUL"
  have "take n src = take n (takeWhile ?P src @ dropWhile ?P src)" by simp
  also have "\<dots> = take n (takeWhile ?P src)"
    using assms unfolding strlen_def by (simp only: take_append) simp
  finally have t: "take n src = take n (takeWhile ?P src)" .
  have "x \<noteq> NUL" if "x \<in> set (take n src)" for x
  proof -
    from that have "x \<in> set (takeWhile ?P src)"
      unfolding t by (rule in_set_takeD)
    then show ?thesis by (rule set_takeWhileD [THEN conjunct2])
  qed
  then have "takeWhile ?P (take n src @ [NUL]) = take n src @ takeWhile ?P [NUL]"
    by (intro takeWhile_append2)
  then show ?thesis by (simp add: c_str_def)
qed

lemma stored_text_long:
  assumes "sizeof_text - 1 < strlen src"
  shows "map (strncpy_char src) [0..<sizeof_text - 1] @ [NUL] = take 15 src @ [NUL]"
proof -
  have "sizeof_text - 1 \<le> strlen src" using assms by simp
  from strncpy_char_long [OF this] show ?thesis by (simp add: sizeof_text_def)
qed

lemma send_hr_busy:
  assumes "outbox_unacked w \<noteq> []"
  shows "appmsg_send_hr e v w =
           w\<lparr>trace := trace w @
               [Call_app_message_outbox_begin APP_MSG_BUSY,
                APP_LOG APP_LOG_LEVEL_ERROR ''Failed to begin outbox: %d''
                  [ArgMsgResult APP_MSG_BUSY]]\<rparr>"
  using assms by (simp add: appmsg_send_hr_def app_message_outbox_begin_def step_defs)

lemma send_hr_accepted:
  assumes "outbox_unacked w = []" and "outbox_begin_result e = APP_MSG_OK"
    and "dict_write_result e = DICT_OK" and "outbox_send_result e = APP_MSG_OK"
  shows "appmsg_send_hr e v w =
           w\<lparr>trace := trace w @
               [Call_app_message_outbox_begin APP_MSG_OK,
                Call_dict_write_uint16 KEY_HR v DICT_OK,
                Call_app_message_outbox_send APP_MSG_OK],
             outbox_unacked := [[KEY_HR \<mapsto> UInt16 v]]\<rparr>"
  using assms
  by (simp add: appmsg_send_hr_def app_message_outbox_begin_def dict_write_uint16_def
      app_message_outbox_send_def step_defs)

lemma field_case_pace:
  "(case well_typed_part d KEY_PACE of Some (CString s) \<Rightarrow> f s | _ \<Rightarrow> g)
     = (case d KEY_PACE of Some (CString s) \<Rightarrow> f s | _ \<Rightarrow> g)"
  by (simp add: well_typed_part_def declared_type_def key_defs
      split: option.splits TupleValue.splits)

lemma field_case_time:
  "(case well_typed_part d KEY_TIME of Some (CString s) \<Rightarrow> f s | _ \<Rightarrow> g)
     = (case d KEY_TIME of Some (CString s) \<Rightarrow> f s | _ \<Rightarrow> g)"
  by (simp add: well_typed_part_def declared_type_def key_defs
      split: option.splits TupleValue.splits)

lemma field_case_cmd:
  "(case well_typed_part d KEY_CMD of Some (UInt8 c) \<Rightarrow> f c | _ \<Rightarrow> g)
     = (case d KEY_CMD of Some (UInt8 c) \<Rightarrow> f c | _ \<Rightarrow> g)"
  by (simp add: well_typed_part_def declared_type_def key_defs
      split: option.splits TupleValue.splits)

lemma inbox_depends_on_known_keys:
  assumes "d KEY_PACE = d' KEY_PACE" and "d KEY_TIME = d' KEY_TIME" and "d KEY_CMD = d' KEY_CMD"
  shows "inbox_received_callback e d w = inbox_received_callback e d' w"
  unfolding inbox_received_callback_def dict_find_def assms ..

lemma inbox_well_typed_part:
  "inbox_received_callback e d w = inbox_received_callback e (well_typed_part d) w"
  unfolding inbox_received_callback_def dict_find_def field_case_pace field_case_time
    field_case_cmd ..

lemma well_typed_part_wrong_cmd:
  assumes "tuple_type v \<noteq> TUPLE_UINT8"
  shows "well_typed_part (d(KEY_CMD \<mapsto> v)) = well_typed_part (d(KEY_CMD := None))"
  using assms by (intro ext) (simp add: well_typed_part_def declared_type_def key_defs)

lemma strlen_replicate: "c \<noteq> NUL \<Longrightarrow> strlen (replicate n c) = n"
  by (simp add: strlen_def takeWhile_replicate)

lemma world_idle_wf: "wf_AppState (g_app_state world_idle)"
  using world_inv_init [of env_ok] by (simp add: world_idle_def world_inv_def)

lemma run_nothing: "run [] (init env_ok) = Some world_idle"
  by (simp add: world_idle_def)

lemma send_hr_monitor_flag:
  "appmsg_send_hr e v (w\<lparr>s_hr_monitoring := b\<rparr>) = (appmsg_send_hr e v w)\<lparr>s_hr_monitoring := b\<rparr>"
  by (simp add: appmsg_send_hr_def app_message_outbox_begin_def dict_write_uint16_def
      app_message_outbox_send_def step_defs)

lemma hr_event_monitor_flag:
  "hr_event_handler e ev (w\<lparr>s_hr_monitoring := b\<rparr>)
     = (hr_event_handler e ev w)\<lparr>s_hr_monitoring := b\<rparr>"
proof -
  have u: "ui_update_hr v (w\<lparr>s_hr_monitoring := b\<rparr>) = (ui_update_hr v w)\<lparr>s_hr_monitoring := b\<rparr>"
    for v
    by (simp add: ui_update_hr_def step_defs)
  have l: "app_log lvl fmt args (x\<lparr>s_hr_monitoring := b\<rparr>)
             = (app_log lvl fmt args x)\<lparr>s_hr_monitoring := b\<rparr>" for lvl fmt args x
    by (simp add: step_defs)
  show ?thesis
    unfolding hr_event_handler_def Let_def u send_hr_monitor_flag l by simp
qed

lemma hr_event_idle:
  "hr_event_handler env_ok HealthEventHeartRateUpdate world_idle =
     world_idle\<lparr>g_app_state := (g_app_state world_idle)\<lparr>current_hr := 142\<rparr>,
       trace := trace world_idle @
         [Call_app_message_outbox_begin APP_MSG_OK,
          Call_dict_write_uint16 KEY_HR 142 DICT_OK,
          Call_app_message_outbox_send APP_MSG_OK,
          APP_LOG APP_LOG_LEVEL_INFO ''HR: %d BPM'' [ArgInt 142]],
       outbox_unacked := [[KEY_HR \<mapsto> UInt16 142]]\<rparr>"
proof -
  let ?w1 = "ui_update_hr 142 world_idle"
  have w1: "?w1 = world_idle\<lparr>g_app_state := (g_app_state world_idle)\<lparr>current_hr := 142\<rparr>\<rparr>"
    using world_idle_fields(3) by (simp add: ui_update_hr_def)
  have "outbox_unacked ?w1 = []" using world_idle_fields(6) by (simp add: w1)
  from send_hr_accepted [OF this, of env_ok 142]
  have "appmsg_send_hr env_ok 142 ?w1 =
          ?w1\<lparr>trace := trace ?w1 @
               [Call_app_message_outbox_begin APP_MSG_OK,
                Call_dict_write_uint16 KEY_HR 142 DICT_OK,
                Call_app_message_outbox_send APP_MSG_OK],
             outbox_unacked := [[KEY_HR \<mapsto> UInt16 142]]\<rparr>"
    by (simp add: env_ok_def)
  then show ?thesis
    by (simp add: hr_event_handler_def env_ok_def w1 step_defs)
qed

lemma inbox_cmd_only:
  "inbox_received_callback e [KEY_CMD \<mapsto> UInt8 c] w =
     Some (appmsg_handle_command e c
             (app_log APP_LOG_LEVEL_INFO ''AppMessage received'' [] w))"
  by (simp add: inbox_received_callback_def dict_find_def key_defs)

lemma dispatch_stop:
  assumes "s_hr_monitoring w" and "s_main_window w"
  shows "\<exists>w'. deliver e (Ev_inbox_received [KEY_CMD \<mapsto> UInt8 CMD_STOP]) w = Some w'
           \<and> new_effects w w' =
               [APP_LOG APP_LOG_LEVEL_INFO ''AppMessage received'' [],
                APP_LOG APP_LOG_LEVEL_INFO ''Received command: %d'' [ArgInt 2],
                APP_LOG APP_LOG_LEVEL_INFO ''Stopping workout session'' [],
                Call_health_service_set_heart_rate_sample_period 0] @
               (if s_canvas_layer w then [Call_layer_mark_dirty] else []) @
               [APP_LOG APP_LOG_LEVEL_INFO ''HR monitoring stopped'' [],
                Call_window_stack_remove, Call_window_stack_pop_all]
           \<and> current_hr (g_app_state w') = 0
           \<and> \<not> is_active (g_app_state w')
           \<and> \<not> s_hr_monitoring w'"
proof -
  let ?w0 = "app_log APP_LOG_LEVEL_INFO ''AppMessage received'' [] w"
  have "s_hr_monitoring ?w0" and "s_main_window ?w0"
    using assms by (simp_all add: step_defs)
  note fin = appmsg_handle_command_stop_eq [OF this, of e]
  show ?thesis
    unfolding deliver.simps inbox_cmd_only fin
    by (simp add: new_effects_def step_defs)
qed

subsection \<open>The heart-rate event and the session with a reading\<close>

lemma send_hr_eq:
  assumes "r = (if outbox_unacked w \<noteq> [] then APP_MSG_BUSY else outbox_begin_result e)"
  shows "appmsg_send_hr e v w =
           w\<lparr>trace := trace w @
               Call_app_message_outbox_begin r #
               (if r \<noteq> APP_MSG_OK then
                  [APP_LOG APP_LOG_LEVEL_ERROR ''Failed to begin outbox: %d'' [ArgMsgResult r]]
                else
                  Call_dict_write_uint16 KEY_HR v (dict_write_result e) #
                  (if dict_write_result e \<noteq> DICT_OK then
                     [APP_LOG APP_LOG_LEVEL_ERROR ''Failed to write HR to dictionary: %d''
                        [ArgDictResult (dict_write_result e)]]
                   else
                     Call_app_message_outbox_send (outbox_send_result e) #
                     (if outbox_send_result e \<noteq> APP_MSG_OK then
                        [APP_LOG APP_LOG_LEVEL_ERROR ''Failed to send HR message: %d''
                           [ArgMsgResult (outbox_send_result e)]]
                      else []))),
             outbox_unacked :=
               (if r = APP_MSG_OK \<and> dict_write_result e = DICT_OK
                   \<and> outbox_send_result e = APP_MSG_OK
                then outbox_unacked w @ [[KEY_HR \<mapsto> UInt16 v]]
                else outbox_unacked w)\<rparr>"
  unfolding assms
  by (simp add: appmsg_send_hr_def app_message_outbox_begin_def dict_write_uint16_def
      app_message_outbox_send_def step_defs)

lemma hr_event_valid_eq:
  assumes "peek_current_value_result e \<noteq> HealthValueInvalid e"
    and "r = (if outbox_unacked w \<noteq> [] then APP_MSG_BUSY else outbox_begin_result e)"
  shows "hr_event_handler e HealthEventHeartRateUpdate w =
           w\<lparr>g_app_state := (g_app_state w)
                 \<lparr>current_hr := ucast (peek_current_value_result e)\<rparr>,
             trace := trace w @
               (if s_canvas_layer w then [Call_layer_mark_dirty] else []) @
               Call_app_message_outbox_begin r #
               (if r \<noteq> APP_MSG_OK then
                  [APP_LOG APP_LOG_LEVEL_ERROR ''Failed to begin outbox: %d'' [ArgMsgResult r]]
                else
                  Call_dict_write_uint16 KEY_HR (ucast (peek_current_value_result e))
                    (dict_write_result e) #
                  (if dict_write_result e \<noteq> DICT_OK then
                     [APP_LOG APP_LOG_LEVEL_ERROR ''Failed to write HR to dictionary: %d''
                        [ArgDictResult (dict_write_result e)]]
                   else
                     Call_app_message_outbox_send (outbox_send_result e) #
                     (if outbox_send_result e \<noteq> APP_MSG_OK then
                        [APP_LOG APP_LOG_LEVEL_ERROR ''Failed to send HR message: %d''
                           [ArgMsgResult (outbox_send_result e)]]
                      else []))) @
               [APP_LOG APP_LOG_LEVEL_INFO ''HR: %d BPM''
                  [ArgInt (uint (ucast (peek_current_value_result e) :: uint16_t))]],
             outbox_unacked :=
               (if r = APP_MSG_OK \<and> dict_write_result e = DICT_OK
                   \<and> outbox_send_result e = APP_MSG_OK
                then outbox_unacked w @ [[KEY_HR \<mapsto> UInt16 (ucast (peek_current_value_result e))]]
                else outbox_unacked w)\<rparr>"
proof -
  let ?v = "ucast (peek_current_value_result e) :: uint16_t"
  have u: "outbox_unacked (ui_update_hr ?v w) = outbox_unacked w"
    by (simp add: ui_update_hr_def step_defs)
  have r: "r = (if outbox_unacked (ui_update_hr ?v w) \<noteq> [] then APP_MSG_BUSY
                else outbox_begin_result e)"
    unfolding u by (rule assms(2))
  show ?thesis
    using assms(1)
    unfolding hr_event_handler_def Let_def send_hr_eq [OF r]
    by (simp add: ui_update_hr_def step_defs)
qed

lemma world_loaded_eq:
  "world_loaded =
     world_idle\<lparr>s_canvas_layer := True,
       trace := trace world_idle @
         [Call_layer_create, Call_layer_set_update_proc, Call_layer_add_child,
          Call_fonts_get_system_font, Call_fonts_get_system_font]\<rparr>"
  by (simp add: world_loaded_def main_window_load_def step_defs env_ok_def)

lemma world_loaded_fields:
  "\<not> is_active (g_app_state world_loaded)" "\<not> s_hr_monitoring world_loaded"
  "s_canvas_layer world_loaded" "s_main_window world_loaded"
  "current_hr (g_app_state world_loaded) = 0" "outbox_unacked world_loaded = []"
  "health_subscribed world_loaded"
  using world_idle_fields by (simp_all add: world_loaded_eq)

lemma world_started_fields:
  "is_active (g_app_state (appmsg_handle_command env_ok CMD_START
       (app_log APP_LOG_LEVEL_INFO ''AppMessage received'' [] world_loaded)))"
  "s_hr_monitoring (appmsg_handle_command env_ok CMD_START
       (app_log APP_LOG_LEVEL_INFO ''AppMessage received'' [] world_loaded))"
  "s_canvas_layer (appmsg_handle_command env_ok CMD_START
       (app_log APP_LOG_LEVEL_INFO ''AppMessage received'' [] world_loaded))"
  "s_main_window (appmsg_handle_command env_ok CMD_START
       (app_log APP_LOG_LEVEL_INFO ''AppMessage received'' [] world_loaded))"
  "health_subscribed (appmsg_handle_command env_ok CMD_START
       (app_log APP_LOG_LEVEL_INFO ''AppMessage received'' [] world_loaded))"
  "outbox_unacked (appmsg_handle_command env_ok CMD_START
       (app_log APP_LOG_LEVEL_INFO ''AppMessage received'' [] world_loaded)) = []"
  using world_loaded_fields
  by (simp_all add: appmsg_handle_command_def CMD_START_def hr_start_monitoring_eq
      ui_show_window_eq env_ok_def step_defs)

lemma env_ok_valid: "peek_current_value_result env_ok \<noteq> HealthValueInvalid env_ok"
  by (simp add: env_ok_def)

lemma world_reading_fields:
  "is_active (g_app_state world_reading)" "s_hr_monitoring world_reading"
  "s_canvas_layer world_reading" "s_main_window world_reading"
  "current_hr (g_app_state world_reading) = 142"
  unfolding world_reading_def hr_event_valid_eq [OF env_ok_valid refl]
  using world_started_fields by (simp_all add: env_ok_def)

lemma run_session: "run session_events (init env_ok) = Some world_reading"
  using world_idle_fields(4) world_started_fields(5)
  by (simp add: session_events_def world_reading_def world_loaded_def inbox_cmd_only
      world_idle_def [symmetric])

lemma run_append:
  "run (xs @ ys) w = (case run xs w of None \<Rightarrow> None | Some w' \<Rightarrow> run ys w')"
  by (induction xs arbitrary: w) (auto split: option.splits)

lemma run_session_stop:
  "run (session_events @ [(env_ok, Ev_inbox_received [KEY_CMD \<mapsto> UInt8 CMD_STOP])])
     (init env_ok) = Some world_stopped"
  by (simp add: run_append run_session inbox_cmd_only world_stopped_def)

lemma world_stopped_eq:
  "world_stopped =
     world_reading\<lparr>g_app_state := (g_app_state world_reading)
         \<lparr>current_hr := 0, is_active := False\<rparr>,
       s_hr_monitoring := False,
       trace := trace world_reading @
         [APP_LOG APP_LOG_LEVEL_INFO ''AppMessage received'' [],
          APP_LOG APP_LOG_LEVEL_INFO ''Received command: %d'' [ArgInt 2],
          APP_LOG APP_LOG_LEVEL_INFO ''Stopping workout session'' [],
          Call_health_service_set_heart_rate_sample_period 0,
          Call_layer_mark_dirty,
          APP_LOG APP_LOG_LEVEL_INFO ''HR monitoring stopped'' [],
          Call_window_stack_remove, Call_window_stack_pop_all]\<rparr>"
proof -
  let ?w0 = "app_log APP_LOG_LEVEL_INFO ''AppMessage received'' [] world_reading"
  have "s_hr_monitoring ?w0" and "s_main_window ?w0"
    using world_reading_fields by (simp_all add: step_defs)
  from appmsg_handle_command_stop_eq [OF this, of env_ok] world_reading_fields(3)
  show ?thesis by (simp add: world_stopped_def step_defs)
qed

lemma world_stopped_fields:
  "\<not> is_active (g_app_state world_stopped)" "\<not> s_hr_monitoring world_stopped"
  "current_hr (g_app_state world_stopped) = 0" "\<not> sample_since_stop (trace world_stopped)"
  by (simp_all add: world_stopped_eq ghost_defs)

lemma trace_world_idle:
  "trace world_idle =
     [Call_window_create, Call_window_set_background_color, Call_window_set_window_handlers,
      APP_LOG APP_LOG_LEVEL_INFO ''UI initialized'' [],
      Call_health_service_events_subscribe,
      APP_LOG APP_LOG_LEVEL_INFO ''HR monitoring initialized'' [],
      Call_app_message_register_inbox_received, Call_app_message_register_inbox_dropped,
      Call_app_message_register_outbox_sent, Call_app_message_register_outbox_failed,
      Call_app_message_open 128 64,
      APP_LOG APP_LOG_LEVEL_INFO ''AppMessage initialized successfully'' [],
      APP_LOG APP_LOG_LEVEL_INFO ''PebbleRun initialized'' []]"
  by (simp add: world_idle_def boot_defs env_ok_def step_defs)

lemma world_unstarted_hr_eq:
  "world_unstarted_hr =
     world_idle\<lparr>g_app_state := (g_app_state world_idle)\<lparr>current_hr := 142\<rparr>,
       trace := trace world_idle @
         [Call_app_message_outbox_begin APP_MSG_OK,
          Call_dict_write_uint16 KEY_HR 142 DICT_OK,
          Call_app_message_outbox_send APP_MSG_OK,
          APP_LOG APP_LOG_LEVEL_INFO ''HR: %d BPM'' [ArgInt 142]],
       outbox_unacked := [[KEY_HR \<mapsto> UInt16 142]]\<rparr>"
  unfolding world_unstarted_hr_def by (rule hr_event_idle)

lemma world_unstarted_hr_fields:
  "\<not> is_active (g_app_state world_unstarted_hr)" "\<not> s_hr_monitoring world_unstarted_hr"
  "current_hr (g_app_state world_unstarted_hr) = 142"
  "filter is_start_report (trace world_unstarted_hr) = []"
  "\<not> monitor_produced_reading (trace world_unstarted_hr)"
  using world_idle_fields(1,2)
  by (simp_all add: world_unstarted_hr_eq trace_world_idle monitor_produced_reading_def
      monitor_step_def ghost_defs)

lemma run_unstarted_hr:
  "run [(env_ok, Ev_health HealthEventHeartRateUpdate)] (init env_ok) = Some world_unstarted_hr"
  using world_idle_fields(7)
  by (simp add: world_unstarted_hr_def world_idle_def [symmetric])

lemma world_sampling_outbox: "outbox_unacked world_sampling = []"
  using world_idle_fields(6)
  by (simp add: world_sampling_def appmsg_handle_command_def CMD_START_def
      hr_start_monitoring_eq ui_show_window_eq step_defs)

section \<open>The claims\<close>

text \<open>
  Claim C1. \<^verbatim>\<open>CMD_STOP\<close> (value 2) handled while the session is active and the monitor is
  sampling, in any world whose window exists, as it does in every world the event loop
  reaches with an active session: the command is the stop of the sensor monitor followed
  by the hiding of the session view. The stop alone takes the world to the one with
  \<open>current_hr = 0\<close> (whatever it was) and the monitor stopped, the session still shown; the
  platform sees, in this order, the reset of the sample period, the dirty mark for the
  cleared heart rate (when the canvas exists) and then the removal of the window; the world
  at the end is the one at the start with \<open>current_hr = 0\<close>, \<open>is_active = False\<close>, the monitor
  stopped and these effects added. The same holds of the delivery of a message whose only
  field is that command.
\<close>

theorem cmd_stop_effects_in_order:
  assumes "is_active (g_app_state w)"
    and "s_hr_monitoring w"
    and "s_main_window w \<or> run evs (init e0) = Some w"
  shows "appmsg_handle_command e CMD_STOP w =
           emit Call_window_stack_pop_all
             (ui_hide_window
               (hr_stop_monitoring e
                 (app_log APP_LOG_LEVEL_INFO ''Stopping workout session'' []
                   (app_log APP_LOG_LEVEL_INFO ''Received command: %d'' [ArgInt 2] w))))
         \<and> hr_stop_monitoring e
               (app_log APP_LOG_LEVEL_INFO ''Stopping workout session'' []
                 (app_log APP_LOG_LEVEL_INFO ''Received command: %d'' [ArgInt 2] w)) =
             w\<lparr>g_app_state := (g_app_state w)\<lparr>current_hr := 0\<rparr>,
               s_hr_monitoring := False,
               trace := trace w @
                 [APP_LOG APP_LOG_LEVEL_INFO ''Received command: %d'' [ArgInt 2],
                  APP_LOG APP_LOG_LEVEL_INFO ''Stopping workout session'' [],
                  Call_health_service_set_heart_rate_sample_period 0] @
                 (if s_canvas_layer w then [Call_layer_mark_dirty] else []) @
                 [APP_LOG APP_LOG_LEVEL_INFO ''HR monitoring stopped'' []]\<rparr>
         \<and> is_active (g_app_state
               (hr_stop_monitoring e
                 (app_log APP_LOG_LEVEL_INFO ''Stopping workout session'' []
                   (app_log APP_LOG_LEVEL_INFO ''Received command: %d'' [ArgInt 2] w))))
         \<and> appmsg_handle_command e CMD_STOP w =
             w\<lparr>g_app_state := (g_app_state w)\<lparr>current_hr := 0, is_active := False\<rparr>,
               s_hr_monitoring := False,
               trace := trace w @
                 [APP_LOG APP_LOG_LEVEL_INFO ''Received command: %d'' [ArgInt 2],
                  APP_LOG APP_LOG_LEVEL_INFO ''Stopping workout session'' [],
                  Call_health_service_set_heart_rate_sample_period 0] @
                 (if s_canvas_layer w then [Call_layer_mark_dirty] else []) @
                 [APP_LOG APP_LOG_LEVEL_INFO ''HR monitoring stopped'' [],
                  Call_window_stack_remove, Call_window_stack_pop_all]\<rparr>
         \<and> new_effects w (appmsg_handle_command e CMD_STOP w) =
               [APP_LOG APP_LOG_LEVEL_INFO ''Received command: %d'' [ArgInt 2],
                APP_LOG APP_LOG_LEVEL_INFO ''Stopping workout session'' [],
                Call_health_service_set_heart_rate_sample_period 0] @
               (if s_canvas_layer w then [Call_layer_mark_dirty] else []) @
               [APP_LOG APP_LOG_LEVEL_INFO ''HR monitoring stopped'' [],
                Call_window_stack_remove, Call_window_stack_pop_all]
         \<and> current_hr (g_app_state (appmsg_handle_command e CMD_STOP w)) = 0
         \<and> \<not> is_active (g_app_state (appmsg_handle_command e CMD_STOP w))
         \<and> \<not> s_hr_monitoring (appmsg_handle_command e CMD_STOP w)
         \<and> (\<exists>w'. deliver e (Ev_inbox_received [KEY_CMD \<mapsto> UInt8 CMD_STOP]) w = Some w'
               \<and> new_effects w w' =
                   [APP_LOG APP_LOG_LEVEL_INFO ''AppMessage received'' [],
                    APP_LOG APP_LOG_LEVEL_INFO ''Received command: %d'' [ArgInt 2],
                    APP_LOG APP_LOG_LEVEL_INFO ''Stopping workout session'' [],
                    Call_health_service_set_heart_rate_sample_period 0] @
                   (if s_canvas_layer w then [Call_layer_mark_dirty] else []) @
                   [APP_LOG APP_LOG_LEVEL_INFO ''HR monitoring stopped'' [],
                    Call_window_stack_remove, Call_window_stack_pop_all]
               \<and> current_hr (g_app_state w') = 0
               \<and> \<not> is_active (g_app_state w')
               \<and> \<not> s_hr_monitoring w')"
proof -
  have win: "s_main_window w"
  proof (rule disjE [OF assms(3)])
    assume "run evs (init e0) = Some w"
    from reachable_inv [OF this] assms(1) show ?thesis by (simp add: world_inv_def)
  qed
  have shape: "appmsg_handle_command e CMD_STOP w =
           emit Call_window_stack_pop_all
             (ui_hide_window
               (hr_stop_monitoring e
                 (app_log APP_LOG_LEVEL_INFO ''Stopping workout session'' []
                   (app_log APP_LOG_LEVEL_INFO ''Received command: %d'' [ArgInt 2] w))))"
    by (simp add: appmsg_handle_command_def CMD_START_def CMD_STOP_def Let_def)
  have mid: "hr_stop_monitoring e
               (app_log APP_LOG_LEVEL_INFO ''Stopping workout session'' []
                 (app_log APP_LOG_LEVEL_INFO ''Received command: %d'' [ArgInt 2] w)) =
             w\<lparr>g_app_state := (g_app_state w)\<lparr>current_hr := 0\<rparr>,
               s_hr_monitoring := False,
               trace := trace w @
                 [APP_LOG APP_LOG_LEVEL_INFO ''Received command: %d'' [ArgInt 2],
                  APP_LOG APP_LOG_LEVEL_INFO ''Stopping workout session'' [],
                  Call_health_service_set_heart_rate_sample_period 0] @
                 (if s_canvas_layer w then [Call_layer_mark_dirty] else []) @
                 [APP_LOG APP_LOG_LEVEL_INFO ''HR monitoring stopped'' []]\<rparr>"
    using assms(2) by (simp add: hr_stop_monitoring_eq step_defs)
  have mid_active: "is_active (g_app_state
               (hr_stop_monitoring e
                 (app_log APP_LOG_LEVEL_INFO ''Stopping workout session'' []
                   (app_log APP_LOG_LEVEL_INFO ''Received command: %d'' [ArgInt 2] w))))"
    unfolding mid using assms(1) by simp
  note fin = appmsg_handle_command_stop_eq [OF assms(2) win, of e]
  have eff: "new_effects w (appmsg_handle_command e CMD_STOP w) =
               [APP_LOG APP_LOG_LEVEL_INFO ''Received command: %d'' [ArgInt 2],
                APP_LOG APP_LOG_LEVEL_INFO ''Stopping workout session'' [],
                Call_health_service_set_heart_rate_sample_period 0] @
               (if s_canvas_layer w then [Call_layer_mark_dirty] else []) @
               [APP_LOG APP_LOG_LEVEL_INFO ''HR monitoring stopped'' [],
                Call_window_stack_remove, Call_window_stack_pop_all]"
    unfolding fin by (simp add: new_effects_def)
  have post: "current_hr (g_app_state (appmsg_handle_command e CMD_STOP w)) = 0
         \<and> \<not> is_active (g_app_state (appmsg_handle_command e CMD_STOP w))
         \<and> \<not> s_hr_monitoring (appmsg_handle_command e CMD_STOP w)"
    unfolding fin by simp
  show ?thesis
    using shape mid mid_active fin eff post dispatch_stop [OF assms(2) win, of e]
    by blast
qed

theorem cmd_stop_effects_in_order_witness:
  "run session_events (init env_ok) = Some world_reading
   \<and> is_active (g_app_state world_reading)
   \<and> s_hr_monitoring world_reading
   \<and> s_canvas_layer world_reading
   \<and> current_hr (g_app_state world_reading) = 142
   \<and> new_effects world_reading (appmsg_handle_command env_ok CMD_STOP world_reading) =
       [APP_LOG APP_LOG_LEVEL_INFO ''Received command: %d'' [ArgInt 2],
        APP_LOG APP_LOG_LEVEL_INFO ''Stopping workout session'' [],
        Call_health_service_set_heart_rate_sample_period 0,
        Call_layer_mark_dirty,
        APP_LOG APP_LOG_LEVEL_INFO ''HR monitoring stopped'' [],
        Call_window_stack_remove, Call_window_stack_pop_all]
   \<and> current_hr (g_app_state (appmsg_handle_command env_ok CMD_STOP world_reading)) = 0
   \<and> \<not> is_active (g_app_state (appmsg_handle_command env_ok CMD_STOP world_reading))"
proof -
  have r: "s_main_window world_reading \<or> run session_events (init env_ok) = Some world_reading"
    using run_session by simp
  note t = cmd_stop_effects_in_order [OF world_reading_fields(1,2) r, of env_ok]
  have c: "(if s_canvas_layer world_reading then [Call_layer_mark_dirty] else [])
             = [Call_layer_mark_dirty]"
    using world_reading_fields(3) by simp
  from t have "new_effects world_reading (appmsg_handle_command env_ok CMD_STOP world_reading) =
       [APP_LOG APP_LOG_LEVEL_INFO ''Received command: %d'' [ArgInt 2],
        APP_LOG APP_LOG_LEVEL_INFO ''Stopping workout session'' [],
        Call_health_service_set_heart_rate_sample_period 0] @ [Call_layer_mark_dirty] @
       [APP_LOG APP_LOG_LEVEL_INFO ''HR monitoring stopped'' [],
        Call_window_stack_remove, Call_window_stack_pop_all]"
    unfolding c by blast
  then have "new_effects world_reading (appmsg_handle_command env_ok CMD_STOP world_reading) =
       [APP_LOG APP_LOG_LEVEL_INFO ''Received command: %d'' [ArgInt 2],
        APP_LOG APP_LOG_LEVEL_INFO ''Stopping workout session'' [],
        Call_health_service_set_heart_rate_sample_period 0,
        Call_layer_mark_dirty,
        APP_LOG APP_LOG_LEVEL_INFO ''HR monitoring stopped'' [],
        Call_window_stack_remove, Call_window_stack_pop_all]"
    by simp
  with t run_session world_reading_fields show ?thesis by blast
qed

text \<open>
  Claim C2, as the code has it. In every world the event loop reaches, \<open>current_hr = 0\<close>
  whenever no sample has been applied since the process started or the monitor last
  stopped, in particular when moreover the session is not active; a sample counts
  whether the monitor was Sampling or Stopped when it came. The same holds again after
  each core operation run in such a world: the dispatch of an inbound message, the
  handling of a command, a sensor event, a start and a stop of the monitor. A stop of a
  sampling monitor, in any world and from any heart rate, leaves \<open>current_hr = 0\<close> with no
  sample applied since.
\<close>

theorem session_hr_invariant:
  "(run evs (init e0) = Some w \<longrightarrow>
        session_pred_amended w
      \<and> (\<not> sample_since_stop (trace w) \<longrightarrow> current_hr (g_app_state w) = 0)
      \<and> (\<exists>w'. inbox_received_callback e d w = Some w' \<and> session_pred_amended w')
      \<and> session_pred_amended (appmsg_handle_command e cmd w)
      \<and> session_pred_amended (hr_event_handler e ev w)
      \<and> session_pred_amended (hr_start_monitoring e w)
      \<and> session_pred_amended (hr_stop_monitoring e w))
   \<and> (s_hr_monitoring v \<longrightarrow>
        current_hr (g_app_state (hr_stop_monitoring e v)) = 0
      \<and> \<not> sample_since_stop (trace (hr_stop_monitoring e v)))"
proof (intro conjI impI)
  assume "run evs (init e0) = Some w"
  note inv = reachable_inv [OF this]
  from inv show "session_pred_amended w" by (rule world_inv_session_pred)
  from inv show "\<not> sample_since_stop (trace w) \<Longrightarrow> current_hr (g_app_state w) = 0"
    by (simp add: world_inv_def)
  from world_inv_inbox [OF inv, of e d]
  show "\<exists>w'. inbox_received_callback e d w = Some w' \<and> session_pred_amended w'"
    using world_inv_session_pred by blast
  show "session_pred_amended (appmsg_handle_command e cmd w)"
    by (intro world_inv_session_pred world_inv_command inv)
  show "session_pred_amended (hr_event_handler e ev w)"
    by (intro world_inv_session_pred world_inv_hr_event inv)
  show "session_pred_amended (hr_start_monitoring e w)"
    by (intro world_inv_session_pred world_inv_start inv)
  show "session_pred_amended (hr_stop_monitoring e w)"
    by (intro world_inv_session_pred world_inv_stop inv)
next
  assume s: "s_hr_monitoring v"
  then show "current_hr (g_app_state (hr_stop_monitoring e v)) = 0"
    by (simp add: hr_stop_monitoring_eq)
  from s show "\<not> sample_since_stop (trace (hr_stop_monitoring e v))"
    by (simp add: hr_stop_monitoring_eq ghost_defs)
qed

theorem session_hr_invariant_witness:
  "run session_events (init env_ok) = Some world_reading
   \<and> current_hr (g_app_state world_reading) = 142
   \<and> s_hr_monitoring world_reading
   \<and> current_hr (g_app_state (hr_stop_monitoring env_ok world_reading)) = 0
   \<and> run (session_events @ [(env_ok, Ev_inbox_received [KEY_CMD \<mapsto> UInt8 CMD_STOP])])
        (init env_ok) = Some world_stopped
   \<and> \<not> is_active (g_app_state world_stopped)
   \<and> \<not> sample_since_stop (trace world_stopped)
   \<and> current_hr (g_app_state world_stopped) = 0"
proof -
  note a = session_hr_invariant [of session_events env_ok world_reading env_ok Map.empty 0
      HealthEventHeartRateUpdate world_reading]
  note b = session_hr_invariant [of
      "session_events @ [(env_ok, Ev_inbox_received [KEY_CMD \<mapsto> UInt8 CMD_STOP])]"
      env_ok world_stopped env_ok Map.empty 0 HealthEventHeartRateUpdate world_reading]
  from a world_reading_fields(2)
  have stop: "current_hr (g_app_state (hr_stop_monitoring env_ok world_reading)) = 0"
    by blast
  from b run_session_stop have "session_pred_amended world_stopped" by blast
  with world_stopped_fields(1,4) have "current_hr (g_app_state world_stopped) = 0"
    by (simp add: session_pred_amended_def)
  with stop run_session run_session_stop world_reading_fields(2,5) world_stopped_fields(1,4)
  show ?thesis by blast
qed

text \<open>
  The predicate in the spec's words fails in a world the event loop reaches: right after
  \<^verbatim>\<open>init()\<close> the sensor delivers the sample 142. The session is not active, the monitor
  is stopped and was never started, so it has produced no reading, and \<open>current_hr\<close> is 142.
\<close>

theorem hr_nonzero_before_any_monitoring_counterexample:
  "run [(env_ok, Ev_health HealthEventHeartRateUpdate)] (init env_ok) = Some world_unstarted_hr
   \<and> \<not> is_active (g_app_state world_unstarted_hr)
   \<and> \<not> s_hr_monitoring world_unstarted_hr
   \<and> filter is_start_report (trace world_unstarted_hr) = []
   \<and> \<not> monitor_produced_reading (trace world_unstarted_hr)
   \<and> current_hr (g_app_state world_unstarted_hr) = 142
   \<and> \<not> session_pred world_unstarted_hr"
  using run_unstarted_hr world_unstarted_hr_fields
  by (simp add: session_pred_def)

text \<open>
  Claim C3, as the code has it. A heart-rate update event with a valid sample sets
  \<open>current_hr\<close> to the sample cut to 16 bits (the sample itself when it is below 65536)
  and attempts an outbound send of that value: \<^verbatim>\<open>app_message_outbox_begin\<close>, then, when it
  succeeds, the write of \<open>KEY_HR\<close> with the value, then, when that succeeds, the send, which
  puts the message in flight when it succeeds; each failure is reported and ends the
  attempt. An invalid reading only adds a warning report, and an event of another type
  does nothing. None of this depends on the Sensor Monitor: the handler leaves
  \<open>s_hr_monitoring\<close> as it is and does the same whatever its value, so a sample is applied
  and sent while the monitor is stopped as well.
\<close>

theorem hr_sample_handling:
  "(peek_current_value_result e \<noteq> HealthValueInvalid e
      \<and> r = (if outbox_unacked w \<noteq> [] then APP_MSG_BUSY else outbox_begin_result e) \<longrightarrow>
       hr_event_handler e HealthEventHeartRateUpdate w =
         w\<lparr>g_app_state := (g_app_state w)
               \<lparr>current_hr := ucast (peek_current_value_result e)\<rparr>,
           trace := trace w @
             (if s_canvas_layer w then [Call_layer_mark_dirty] else []) @
             Call_app_message_outbox_begin r #
             (if r \<noteq> APP_MSG_OK then
                [APP_LOG APP_LOG_LEVEL_ERROR ''Failed to begin outbox: %d'' [ArgMsgResult r]]
              else
                Call_dict_write_uint16 KEY_HR (ucast (peek_current_value_result e))
                  (dict_write_result e) #
                (if dict_write_result e \<noteq> DICT_OK then
                   [APP_LOG APP_LOG_LEVEL_ERROR ''Failed to write HR to dictionary: %d''
                      [ArgDictResult (dict_write_result e)]]
                 else
                   Call_app_message_outbox_send (outbox_send_result e) #
                   (if outbox_send_result e \<noteq> APP_MSG_OK then
                      [APP_LOG APP_LOG_LEVEL_ERROR ''Failed to send HR message: %d''
                         [ArgMsgResult (outbox_send_result e)]]
                    else []))) @
             [APP_LOG APP_LOG_LEVEL_INFO ''HR: %d BPM''
                [ArgInt (uint (ucast (peek_current_value_result e) :: uint16_t))]],
           outbox_unacked :=
             (if r = APP_MSG_OK \<and> dict_write_result e = DICT_OK
                 \<and> outbox_send_result e = APP_MSG_OK
              then outbox_unacked w @ [[KEY_HR \<mapsto> UInt16 (ucast (peek_current_value_result e))]]
              else outbox_unacked w)\<rparr>)
   \<and> (peek_current_value_result e \<noteq> HealthValueInvalid e
        \<and> uint (peek_current_value_result e) < 65536 \<longrightarrow>
       uint (current_hr (g_app_state (hr_event_handler e HealthEventHeartRateUpdate w)))
         = uint (peek_current_value_result e))
   \<and> (peek_current_value_result e \<noteq> HealthValueInvalid e \<longrightarrow>
       uint (current_hr (g_app_state (hr_event_handler e HealthEventHeartRateUpdate w)))
         = uint (peek_current_value_result e) mod 65536)
   \<and> (peek_current_value_result e = HealthValueInvalid e \<longrightarrow>
       hr_event_handler e HealthEventHeartRateUpdate w =
         w\<lparr>trace := trace w @ [APP_LOG APP_LOG_LEVEL_WARNING ''Invalid HR reading'' []]\<rparr>)
   \<and> (ev \<noteq> HealthEventHeartRateUpdate \<longrightarrow> hr_event_handler e ev w = w)
   \<and> s_hr_monitoring (hr_event_handler e ev w) = s_hr_monitoring w
   \<and> hr_event_handler e ev (w\<lparr>s_hr_monitoring := b\<rparr>)
       = (hr_event_handler e ev w)\<lparr>s_hr_monitoring := b\<rparr>"
proof (intro conjI impI)
  assume "peek_current_value_result e \<noteq> HealthValueInvalid e
      \<and> r = (if outbox_unacked w \<noteq> [] then APP_MSG_BUSY else outbox_begin_result e)"
  then have v: "peek_current_value_result e \<noteq> HealthValueInvalid e"
    and r: "r = (if outbox_unacked w \<noteq> [] then APP_MSG_BUSY else outbox_begin_result e)"
    by blast+
  show "hr_event_handler e HealthEventHeartRateUpdate w =
         w\<lparr>g_app_state := (g_app_state w)
               \<lparr>current_hr := ucast (peek_current_value_result e)\<rparr>,
           trace := trace w @
             (if s_canvas_layer w then [Call_layer_mark_dirty] else []) @
             Call_app_message_outbox_begin r #
             (if r \<noteq> APP_MSG_OK then
                [APP_LOG APP_LOG_LEVEL_ERROR ''Failed to begin outbox: %d'' [ArgMsgResult r]]
              else
                Call_dict_write_uint16 KEY_HR (ucast (peek_current_value_result e))
                  (dict_write_result e) #
                (if dict_write_result e \<noteq> DICT_OK then
                   [APP_LOG APP_LOG_LEVEL_ERROR ''Failed to write HR to dictionary: %d''
                      [ArgDictResult (dict_write_result e)]]
                 else
                   Call_app_message_outbox_send (outbox_send_result e) #
                   (if outbox_send_result e \<noteq> APP_MSG_OK then
                      [APP_LOG APP_LOG_LEVEL_ERROR ''Failed to send HR message: %d''
                         [ArgMsgResult (outbox_send_result e)]]
                    else []))) @
             [APP_LOG APP_LOG_LEVEL_INFO ''HR: %d BPM''
                [ArgInt (uint (ucast (peek_current_value_result e) :: uint16_t))]],
           outbox_unacked :=
             (if r = APP_MSG_OK \<and> dict_write_result e = DICT_OK
                 \<and> outbox_send_result e = APP_MSG_OK
              then outbox_unacked w @ [[KEY_HR \<mapsto> UInt16 (ucast (peek_current_value_result e))]]
              else outbox_unacked w)\<rparr>"
    by (rule hr_event_valid_eq [OF v r])
next
  assume "peek_current_value_result e \<noteq> HealthValueInvalid e
        \<and> uint (peek_current_value_result e) < 65536"
  then have v: "peek_current_value_result e \<noteq> HealthValueInvalid e"
    and small: "uint (peek_current_value_result e) < 65536"
    by blast+
  have "uint (ucast (peek_current_value_result e) :: uint16_t)
          = uint (peek_current_value_result e) mod 65536"
    by (simp add: unsigned_ucast_eq take_bit_eq_mod)
  also have "\<dots> = uint (peek_current_value_result e)"
    using small by simp
  finally show "uint (current_hr (g_app_state (hr_event_handler e HealthEventHeartRateUpdate w)))
         = uint (peek_current_value_result e)"
    unfolding hr_event_valid_eq [OF v refl] by simp
next
  assume v: "peek_current_value_result e \<noteq> HealthValueInvalid e"
  have "uint (ucast (peek_current_value_result e) :: uint16_t)
          = uint (peek_current_value_result e) mod 65536"
    by (simp add: unsigned_ucast_eq take_bit_eq_mod)
  then show "uint (current_hr (g_app_state (hr_event_handler e HealthEventHeartRateUpdate w)))
         = uint (peek_current_value_result e) mod 65536"
    unfolding hr_event_valid_eq [OF v refl] by simp
next
  assume "peek_current_value_result e = HealthValueInvalid e"
  then show "hr_event_handler e HealthEventHeartRateUpdate w =
         w\<lparr>trace := trace w @ [APP_LOG APP_LOG_LEVEL_WARNING ''Invalid HR reading'' []]\<rparr>"
    by (simp add: hr_event_handler_def step_defs)
next
  assume "ev \<noteq> HealthEventHeartRateUpdate"
  then show "hr_event_handler e ev w = w" by (simp add: hr_event_handler_def)
next
  show "s_hr_monitoring (hr_event_handler e ev w) = s_hr_monitoring w"
    by (simp add: hr_event_handler_def ui_update_hr_def step_defs)
  show "hr_event_handler e ev (w\<lparr>s_hr_monitoring := b\<rparr>)
       = (hr_event_handler e ev w)\<lparr>s_hr_monitoring := b\<rparr>"
    by (rule hr_event_monitor_flag)
qed

theorem hr_sample_handling_witness:
  "peek_current_value_result env_ok \<noteq> HealthValueInvalid env_ok
   \<and> APP_MSG_OK = (if outbox_unacked world_sampling \<noteq> [] then APP_MSG_BUSY
                    else outbox_begin_result env_ok)
   \<and> s_hr_monitoring world_sampling
   \<and> hr_event_handler env_ok HealthEventHeartRateUpdate world_sampling =
       world_sampling\<lparr>g_app_state := (g_app_state world_sampling)\<lparr>current_hr := 142\<rparr>,
         trace := trace world_sampling @
           [Call_app_message_outbox_begin APP_MSG_OK,
            Call_dict_write_uint16 KEY_HR 142 DICT_OK,
            Call_app_message_outbox_send APP_MSG_OK,
            APP_LOG APP_LOG_LEVEL_INFO ''HR: %d BPM'' [ArgInt 142]],
         outbox_unacked := [[KEY_HR \<mapsto> UInt16 142]]\<rparr>
   \<and> uint (peek_current_value_result env_ok) < 65536
   \<and> uint (current_hr (g_app_state
         (hr_event_handler env_ok HealthEventHeartRateUpdate world_sampling))) = 142
   \<and> peek_current_value_result env_hr_70000 \<noteq> HealthValueInvalid env_hr_70000
   \<and> uint (current_hr (g_app_state
         (hr_event_handler env_hr_70000 HealthEventHeartRateUpdate world_sampling))) = 4464
   \<and> HealthEventSleepUpdate \<noteq> HealthEventHeartRateUpdate
   \<and> hr_event_handler env_ok HealthEventSleepUpdate world_sampling = world_sampling
   \<and> peek_current_value_result (env_ok\<lparr>peek_current_value_result := - 1\<rparr>)
       = HealthValueInvalid (env_ok\<lparr>peek_current_value_result := - 1\<rparr>)
   \<and> hr_event_handler (env_ok\<lparr>peek_current_value_result := - 1\<rparr>)
         HealthEventHeartRateUpdate world_sampling
       = world_sampling\<lparr>trace := trace world_sampling @
           [APP_LOG APP_LOG_LEVEL_WARNING ''Invalid HR reading'' []]\<rparr>"
proof -
  have v: "peek_current_value_result env_ok \<noteq> HealthValueInvalid env_ok"
    by (simp add: env_ok_def)
  have r: "APP_MSG_OK = (if outbox_unacked world_sampling \<noteq> [] then APP_MSG_BUSY
                    else outbox_begin_result env_ok)"
    by (simp add: world_sampling_outbox env_ok_def)
  have small: "uint (peek_current_value_result env_ok) < 65536"
    by (simp add: env_ok_def)
  have v7: "peek_current_value_result env_hr_70000 \<noteq> HealthValueInvalid env_hr_70000"
    by (simp add: env_hr_70000_def env_ok_def)
  have i: "peek_current_value_result (env_ok\<lparr>peek_current_value_result := - 1\<rparr>)
       = HealthValueInvalid (env_ok\<lparr>peek_current_value_result := - 1\<rparr>)"
    by (simp add: env_ok_def)
  have d: "HealthEventSleepUpdate \<noteq> HealthEventHeartRateUpdate" by simp
  note a = hr_sample_handling [of env_ok APP_MSG_OK world_sampling HealthEventSleepUpdate True]
  note b = hr_sample_handling [of "env_ok\<lparr>peek_current_value_result := - 1\<rparr>" APP_MSG_OK
      world_sampling HealthEventSleepUpdate True]
  note c = hr_sample_handling [of env_hr_70000 APP_MSG_OK world_sampling
      HealthEventSleepUpdate True]
  from a v r have "hr_event_handler env_ok HealthEventHeartRateUpdate world_sampling =
       world_sampling\<lparr>g_app_state := (g_app_state world_sampling)
             \<lparr>current_hr := ucast (peek_current_value_result env_ok)\<rparr>,
           trace := trace world_sampling @
             (if s_canvas_layer world_sampling then [Call_layer_mark_dirty] else []) @
             Call_app_message_outbox_begin APP_MSG_OK #
             (if APP_MSG_OK \<noteq> APP_MSG_OK then
                [APP_LOG APP_LOG_LEVEL_ERROR ''Failed to begin outbox: %d''
                   [ArgMsgResult APP_MSG_OK]]
              else
                Call_dict_write_uint16 KEY_HR (ucast (peek_current_value_result env_ok))
                  (dict_write_result env_ok) #
                (if dict_write_result env_ok \<noteq> DICT_OK then
                   [APP_LOG APP_LOG_LEVEL_ERROR ''Failed to write HR to dictionary: %d''
                      [ArgDictResult (dict_write_result env_ok)]]
                 else
                   Call_app_message_outbox_send (outbox_send_result env_ok) #
                   (if outbox_send_result env_ok \<noteq> APP_MSG_OK then
                      [APP_LOG APP_LOG_LEVEL_ERROR ''Failed to send HR message: %d''
                         [ArgMsgResult (outbox_send_result env_ok)]]
                    else []))) @
             [APP_LOG APP_LOG_LEVEL_INFO ''HR: %d BPM''
                [ArgInt (uint (ucast (peek_current_value_result env_ok) :: uint16_t))]],
           outbox_unacked :=
             (if APP_MSG_OK = APP_MSG_OK \<and> dict_write_result env_ok = DICT_OK
                 \<and> outbox_send_result env_ok = APP_MSG_OK
              then outbox_unacked world_sampling @
                     [[KEY_HR \<mapsto> UInt16 (ucast (peek_current_value_result env_ok))]]
              else outbox_unacked world_sampling)\<rparr>"
    by blast
  then have eq: "hr_event_handler env_ok HealthEventHeartRateUpdate world_sampling =
       world_sampling\<lparr>g_app_state := (g_app_state world_sampling)\<lparr>current_hr := 142\<rparr>,
         trace := trace world_sampling @
           [Call_app_message_outbox_begin APP_MSG_OK,
            Call_dict_write_uint16 KEY_HR 142 DICT_OK,
            Call_app_message_outbox_send APP_MSG_OK,
            APP_LOG APP_LOG_LEVEL_INFO ''HR: %d BPM'' [ArgInt 142]],
         outbox_unacked := [[KEY_HR \<mapsto> UInt16 142]]\<rparr>"
    using world_sampling_fields(3) world_sampling_outbox by (simp add: env_ok_def)
  from a v small have "uint (current_hr (g_app_state
         (hr_event_handler env_ok HealthEventHeartRateUpdate world_sampling)))
       = uint (peek_current_value_result env_ok)"
    by blast
  then have u: "uint (current_hr (g_app_state
         (hr_event_handler env_ok HealthEventHeartRateUpdate world_sampling))) = 142"
    by (simp add: env_ok_def)
  from c v7 have "uint (current_hr (g_app_state
         (hr_event_handler env_hr_70000 HealthEventHeartRateUpdate world_sampling)))
       = uint (peek_current_value_result env_hr_70000) mod 65536"
    by blast
  then have u7: "uint (current_hr (g_app_state
         (hr_event_handler env_hr_70000 HealthEventHeartRateUpdate world_sampling))) = 4464"
    by (simp add: env_hr_70000_def env_ok_def)
  from a d have sl: "hr_event_handler env_ok HealthEventSleepUpdate world_sampling = world_sampling"
    by blast
  from b i have inv: "hr_event_handler (env_ok\<lparr>peek_current_value_result := - 1\<rparr>)
         HealthEventHeartRateUpdate world_sampling
       = world_sampling\<lparr>trace := trace world_sampling @
           [APP_LOG APP_LOG_LEVEL_WARNING ''Invalid HR reading'' []]\<rparr>"
    by blast
  from v r small v7 i d eq u u7 sl inv world_sampling_fields(2) show ?thesis by blast
qed

text \<open>
  The claim as written (a sample is applied and sent only while the monitor is sampling)
  fails right after \<^verbatim>\<open>init()\<close>: the monitor has never been started, the handler is
  subscribed, and the event with the sample 142 sets \<open>current_hr\<close> to 142 and hands the
  message to the transport.
\<close>

theorem hr_update_while_stopped_counterexample:
  "\<not> s_hr_monitoring world_idle
   \<and> health_subscribed world_idle
   \<and> deliver env_ok (Ev_health HealthEventHeartRateUpdate) world_idle
       = Some (hr_event_handler env_ok HealthEventHeartRateUpdate world_idle)
   \<and> current_hr (g_app_state (hr_event_handler env_ok HealthEventHeartRateUpdate world_idle))
       = 142
   \<and> new_effects world_idle (hr_event_handler env_ok HealthEventHeartRateUpdate world_idle)
       = [Call_app_message_outbox_begin APP_MSG_OK,
          Call_dict_write_uint16 KEY_HR 142 DICT_OK,
          Call_app_message_outbox_send APP_MSG_OK,
          APP_LOG APP_LOG_LEVEL_INFO ''HR: %d BPM'' [ArgInt 142]]
   \<and> length (outbox_unacked (hr_event_handler env_ok HealthEventHeartRateUpdate world_idle)) = 1
   \<and> \<not> s_hr_monitoring (hr_event_handler env_ok HealthEventHeartRateUpdate world_idle)"
  using world_idle_fields(2,7)
  by (simp add: hr_event_idle new_effects_def)

text \<open>
  Claim C4. A send issued while an outbound message awaits completion fails with
  \<open>APP_MSG_BUSY\<close>: the world changes only by the call of \<^verbatim>\<open>app_message_outbox_begin\<close> and
  the error report carrying that result, so the session state and the message in flight
  are untouched. After an accepted send exactly that message is in flight, and a second
  send fails in this way whatever the platform would answer. In every world the event
  loop reaches, before and after a send, at most one message awaits completion.
\<close>

theorem single_slot_outbox:
  "(outbox_unacked w \<noteq> [] \<longrightarrow>
      appmsg_send_hr e v w =
        w\<lparr>trace := trace w @
            [Call_app_message_outbox_begin APP_MSG_BUSY,
             APP_LOG APP_LOG_LEVEL_ERROR ''Failed to begin outbox: %d''
               [ArgMsgResult APP_MSG_BUSY]]\<rparr>)
   \<and> (outbox_unacked w = [] \<and> outbox_begin_result e = APP_MSG_OK
        \<and> dict_write_result e = DICT_OK \<and> outbox_send_result e = APP_MSG_OK \<longrightarrow>
      outbox_unacked (appmsg_send_hr e v w) = [[KEY_HR \<mapsto> UInt16 v]]
      \<and> appmsg_send_hr e' v' (appmsg_send_hr e v w) =
          (appmsg_send_hr e v w)\<lparr>trace := trace (appmsg_send_hr e v w) @
            [Call_app_message_outbox_begin APP_MSG_BUSY,
             APP_LOG APP_LOG_LEVEL_ERROR ''Failed to begin outbox: %d''
               [ArgMsgResult APP_MSG_BUSY]]\<rparr>)
   \<and> (run evs (init e0) = Some w \<longrightarrow>
        length (outbox_unacked w) \<le> 1
        \<and> length (outbox_unacked (appmsg_send_hr e v w)) \<le> 1)"
proof (intro conjI impI)
  assume "outbox_unacked w \<noteq> []"
  then show "appmsg_send_hr e v w =
        w\<lparr>trace := trace w @
            [Call_app_message_outbox_begin APP_MSG_BUSY,
             APP_LOG APP_LOG_LEVEL_ERROR ''Failed to begin outbox: %d''
               [ArgMsgResult APP_MSG_BUSY]]\<rparr>"
    by (rule send_hr_busy)
next
  assume a: "outbox_unacked w = [] \<and> outbox_begin_result e = APP_MSG_OK
        \<and> dict_write_result e = DICT_OK \<and> outbox_send_result e = APP_MSG_OK"
  then have acc: "appmsg_send_hr e v w =
           w\<lparr>trace := trace w @
               [Call_app_message_outbox_begin APP_MSG_OK,
                Call_dict_write_uint16 KEY_HR v DICT_OK,
                Call_app_message_outbox_send APP_MSG_OK],
             outbox_unacked := [[KEY_HR \<mapsto> UInt16 v]]\<rparr>"
    by (intro send_hr_accepted) simp_all
  then show first: "outbox_unacked (appmsg_send_hr e v w) = [[KEY_HR \<mapsto> UInt16 v]]"
    by simp
  then have "outbox_unacked (appmsg_send_hr e v w) \<noteq> []" by simp
  then show "appmsg_send_hr e' v' (appmsg_send_hr e v w) =
          (appmsg_send_hr e v w)\<lparr>trace := trace (appmsg_send_hr e v w) @
            [Call_app_message_outbox_begin APP_MSG_BUSY,
             APP_LOG APP_LOG_LEVEL_ERROR ''Failed to begin outbox: %d''
               [ArgMsgResult APP_MSG_BUSY]]\<rparr>"
    by (rule send_hr_busy)
next
  assume "run evs (init e0) = Some w"
  then have "world_inv w" by (rule reachable_inv)
  then show slot: "length (outbox_unacked w) \<le> 1" by (simp add: world_inv_def)
  then show "length (outbox_unacked (appmsg_send_hr e v w)) \<le> 1"
    by (rule appmsg_send_hr_slot)
qed

theorem single_slot_outbox_witness:
  "run [] (init env_ok) = Some world_idle
   \<and> outbox_unacked world_idle = []
   \<and> outbox_begin_result env_ok = APP_MSG_OK \<and> dict_write_result env_ok = DICT_OK
   \<and> outbox_send_result env_ok = APP_MSG_OK
   \<and> outbox_unacked (appmsg_send_hr env_ok 142 world_idle) = [[KEY_HR \<mapsto> UInt16 142]]
   \<and> outbox_unacked (appmsg_send_hr env_ok 142 world_idle) \<noteq> []
   \<and> appmsg_send_hr env_ok 150 (appmsg_send_hr env_ok 142 world_idle) =
       (appmsg_send_hr env_ok 142 world_idle)
         \<lparr>trace := trace (appmsg_send_hr env_ok 142 world_idle) @
            [Call_app_message_outbox_begin APP_MSG_BUSY,
             APP_LOG APP_LOG_LEVEL_ERROR ''Failed to begin outbox: %d''
               [ArgMsgResult APP_MSG_BUSY]]\<rparr>
   \<and> length (outbox_unacked (appmsg_send_hr env_ok 142 world_idle)) \<le> 1"
proof -
  have ok: "outbox_begin_result env_ok = APP_MSG_OK" "dict_write_result env_ok = DICT_OK"
    "outbox_send_result env_ok = APP_MSG_OK"
    by (simp_all add: env_ok_def)
  note a = single_slot_outbox [of world_idle env_ok 142 env_ok 150 "[]" env_ok]
  from a ok world_idle_fields(6)
  have one: "outbox_unacked (appmsg_send_hr env_ok 142 world_idle) = [[KEY_HR \<mapsto> UInt16 142]]"
    by blast
  then have ne: "outbox_unacked (appmsg_send_hr env_ok 142 world_idle) \<noteq> []" by simp
  note b = single_slot_outbox [of "appmsg_send_hr env_ok 142 world_idle" env_ok 150 env_ok 150
      "[]" env_ok]
  from b ne have "appmsg_send_hr env_ok 150 (appmsg_send_hr env_ok 142 world_idle) =
       (appmsg_send_hr env_ok 142 world_idle)
         \<lparr>trace := trace (appmsg_send_hr env_ok 142 world_idle) @
            [Call_app_message_outbox_begin APP_MSG_BUSY,
             APP_LOG APP_LOG_LEVEL_ERROR ''Failed to begin outbox: %d''
               [ArgMsgResult APP_MSG_BUSY]]\<rparr>"
    by blast
  moreover from a run_nothing
  have "length (outbox_unacked (appmsg_send_hr env_ok 142 world_idle)) \<le> 1"
    by blast
  ultimately show ?thesis using one ne ok world_idle_fields(6) run_nothing by blast
qed

text \<open>
  Claim C5. For every input string and every world whose text arrays have their 16 bytes,
  storing a pace or a time never writes outside the array (the result is \<open>Some\<close>) and the
  arrays keep their size. An input longer than 15 characters is stored as its first 15
  characters followed by the terminator, so the stored C string has exactly 15
  characters; the only report is the debug report of the update, no warning and no error,
  and nothing of the world is consulted but the canvas pointer.
\<close>

theorem text_update_truncates:
  assumes "wf_AppState (g_app_state w)"
  shows "(\<exists>w'. ui_update_pace (Some src) w = Some w' \<and> wf_AppState (g_app_state w'))
       \<and> (\<exists>w'. ui_update_time (Some src) w = Some w' \<and> wf_AppState (g_app_state w'))
       \<and> (15 < strlen src \<longrightarrow>
            appmsg_handle_pace_update (Some src) w =
              Some (w\<lparr>g_app_state := (g_app_state w)\<lparr>pace_text := take 15 src @ [NUL]\<rparr>,
                      trace := trace w @
                        [APP_LOG APP_LOG_LEVEL_DEBUG ''Pace update: %s'' [ArgStr src]] @
                        (if s_canvas_layer w then [Call_layer_mark_dirty] else [])\<rparr>)
          \<and> appmsg_handle_time_update (Some src) w =
              Some (w\<lparr>g_app_state := (g_app_state w)\<lparr>time_text := take 15 src @ [NUL]\<rparr>,
                      trace := trace w @
                        [APP_LOG APP_LOG_LEVEL_DEBUG ''Time update: %s'' [ArgStr src]] @
                        (if s_canvas_layer w then [Call_layer_mark_dirty] else [])\<rparr>)
          \<and> length (take 15 src @ [NUL]) = sizeof_text
          \<and> c_str (take 15 src @ [NUL]) = take 15 src
          \<and> length (take 15 src) = 15)"
proof (intro conjI impI)
  show "\<exists>w'. ui_update_pace (Some src) w = Some w' \<and> wf_AppState (g_app_state w')"
    using assms by (simp add: ui_update_pace_eq wf_AppState_def sizeof_text_def)
  show "\<exists>w'. ui_update_time (Some src) w = Some w' \<and> wf_AppState (g_app_state w')"
    using assms by (simp add: ui_update_time_eq wf_AppState_def sizeof_text_def)
next
  assume long: "15 < strlen src"
  then have l: "sizeof_text - 1 < strlen src" by (simp add: sizeof_text_def)
  show "appmsg_handle_pace_update (Some src) w =
              Some (w\<lparr>g_app_state := (g_app_state w)\<lparr>pace_text := take 15 src @ [NUL]\<rparr>,
                      trace := trace w @
                        [APP_LOG APP_LOG_LEVEL_DEBUG ''Pace update: %s'' [ArgStr src]] @
                        (if s_canvas_layer w then [Call_layer_mark_dirty] else [])\<rparr>)"
    unfolding appmsg_handle_pace_update_eq [OF assms] stored_text_long [OF l] ..
  show "appmsg_handle_time_update (Some src) w =
              Some (w\<lparr>g_app_state := (g_app_state w)\<lparr>time_text := take 15 src @ [NUL]\<rparr>,
                      trace := trace w @
                        [APP_LOG APP_LOG_LEVEL_DEBUG ''Time update: %s'' [ArgStr src]] @
                        (if s_canvas_layer w then [Call_layer_mark_dirty] else [])\<rparr>)"
    unfolding appmsg_handle_time_update_eq [OF assms] stored_text_long [OF l] ..
  have "strlen src \<le> length src" by (simp add: strlen_def length_takeWhile_le)
  with long show "length (take 15 src @ [NUL]) = sizeof_text" "length (take 15 src) = 15"
    by (simp_all add: sizeof_text_def)
  from long show "c_str (take 15 src @ [NUL]) = take 15 src"
    by (intro take_before_terminator) simp
qed

theorem text_update_truncates_witness:
  "wf_AppState (g_app_state world_idle)
   \<and> 15 < strlen (replicate 1000 (CHR ''a''))
   \<and> appmsg_handle_pace_update (Some (replicate 1000 (CHR ''a''))) world_idle =
       Some (world_idle\<lparr>g_app_state := (g_app_state world_idle)
                 \<lparr>pace_text := replicate 15 (CHR ''a'') @ [NUL]\<rparr>,
               trace := trace world_idle @
                 [APP_LOG APP_LOG_LEVEL_DEBUG ''Pace update: %s''
                    [ArgStr (replicate 1000 (CHR ''a''))]]\<rparr>)
   \<and> c_str (replicate 15 (CHR ''a'') @ [NUL]) = replicate 15 (CHR ''a'')"
proof -
  have a: "CHR ''a'' \<noteq> NUL" by (simp add: NUL_def)
  have long: "15 < strlen (replicate 1000 (CHR ''a''))"
    by (simp add: strlen_replicate [OF a])
  have tk: "take 15 (replicate 1000 (CHR ''a'')) = replicate 15 (CHR ''a'')" by simp
  have nc: "(if s_canvas_layer world_idle then [Call_layer_mark_dirty] else []) = []"
    using world_idle_fields(3) by simp
  note t = text_update_truncates [OF world_idle_wf, of "replicate 1000 (CHR ''a'')",
      unfolded tk nc append_Nil2]
  from t long world_idle_wf show ?thesis by blast
qed

text \<open>
  Claim C6. The dispatch of an inbound message depends only on the fields whose key is
  PACE, TIME or CMD and whose value has the declared type: it does the same on the
  message and on its well-typed part. A CMD field whose value is not an unsigned 8-bit
  integer is handled as if the field were absent, a field with any other key is ignored,
  and a message that carries only a string-typed CMD returns normally with the world
  unchanged but for the report of the received message.
\<close>

theorem inbound_dispatch_type_safe:
  "inbox_received_callback e d w = inbox_received_callback e (well_typed_part d) w
   \<and> (tuple_type v \<noteq> TUPLE_UINT8 \<longrightarrow>
        inbox_received_callback e (d(KEY_CMD \<mapsto> v)) w
          = inbox_received_callback e (d(KEY_CMD := None)) w)
   \<and> (k \<noteq> KEY_PACE \<and> k \<noteq> KEY_TIME \<and> k \<noteq> KEY_CMD \<longrightarrow>
        inbox_received_callback e (d(k \<mapsto> v)) w = inbox_received_callback e d w)
   \<and> inbox_received_callback e [KEY_CMD \<mapsto> CString s] w
        = Some (w\<lparr>trace := trace w @ [APP_LOG APP_LOG_LEVEL_INFO ''AppMessage received'' []]\<rparr>)"
proof (intro conjI impI)
  show "inbox_received_callback e d w = inbox_received_callback e (well_typed_part d) w"
    by (rule inbox_well_typed_part)
next
  assume "tuple_type v \<noteq> TUPLE_UINT8"
  from well_typed_part_wrong_cmd [OF this, of d]
  show "inbox_received_callback e (d(KEY_CMD \<mapsto> v)) w
               = inbox_received_callback e (d(KEY_CMD := None)) w"
    using inbox_well_typed_part [of e "d(KEY_CMD \<mapsto> v)" w]
      inbox_well_typed_part [of e "d(KEY_CMD := None)" w]
    by simp
next
  assume "k \<noteq> KEY_PACE \<and> k \<noteq> KEY_TIME \<and> k \<noteq> KEY_CMD"
  then show "inbox_received_callback e (d(k \<mapsto> v)) w = inbox_received_callback e d w"
    by (intro inbox_depends_on_known_keys) auto
next
  show "inbox_received_callback e [KEY_CMD \<mapsto> CString s] w
          = Some (w\<lparr>trace := trace w @ [APP_LOG APP_LOG_LEVEL_INFO ''AppMessage received'' []]\<rparr>)"
    by (simp add: inbox_received_callback_def dict_find_def key_defs step_defs)
qed

theorem inbound_dispatch_type_safe_witness:
  "tuple_type (CString ''stop'') \<noteq> TUPLE_UINT8
   \<and> inbox_received_callback env_ok [KEY_CMD \<mapsto> CString ''stop''] world_sampling
       = inbox_received_callback env_ok Map.empty world_sampling
   \<and> (7 :: uint32_t) \<noteq> KEY_PACE \<and> (7 :: uint32_t) \<noteq> KEY_TIME \<and> (7 :: uint32_t) \<noteq> KEY_CMD
   \<and> inbox_received_callback env_ok [7 \<mapsto> UInt8 2] world_sampling
       = inbox_received_callback env_ok Map.empty world_sampling
   \<and> inbox_received_callback env_ok [KEY_CMD \<mapsto> CString ''stop''] world_sampling
       = Some (world_sampling\<lparr>trace := trace world_sampling @
                 [APP_LOG APP_LOG_LEVEL_INFO ''AppMessage received'' []]\<rparr>)"
proof -
  have k: "(7 :: uint32_t) \<noteq> KEY_PACE \<and> (7 :: uint32_t) \<noteq> KEY_TIME \<and> (7 :: uint32_t) \<noteq> KEY_CMD"
    by (simp add: key_defs)
  have t: "tuple_type (CString ''stop'') \<noteq> TUPLE_UINT8" by simp
  note a = inbound_dispatch_type_safe [of env_ok Map.empty world_sampling "CString ''stop''" 7 "''stop''"]
  note b = inbound_dispatch_type_safe [of env_ok Map.empty world_sampling "UInt8 2" 7 "''stop''"]
  have e: "(Map.empty :: Dictionary)(KEY_CMD := None) = Map.empty" by simp
  from a t have "inbox_received_callback env_ok [KEY_CMD \<mapsto> CString ''stop''] world_sampling
       = inbox_received_callback env_ok Map.empty world_sampling"
    unfolding e by blast
  moreover from b k have "inbox_received_callback env_ok [7 \<mapsto> UInt8 2] world_sampling
       = inbox_received_callback env_ok Map.empty world_sampling"
    by blast
  moreover from a have "inbox_received_callback env_ok [KEY_CMD \<mapsto> CString ''stop''] world_sampling
       = Some (world_sampling\<lparr>trace := trace world_sampling @
                 [APP_LOG APP_LOG_LEVEL_INFO ''AppMessage received'' []]\<rparr>)"
    by blast
  ultimately show ?thesis using k t by blast
qed

text \<open>
  Claim C7. Starting a monitor that is sampling, and stopping one that is stopped, change
  nothing in the world but the trace, which gains exactly one warning report: neither the
  monitoring flag nor the session state moves, and no platform call is made.
\<close>

theorem start_stop_idempotent:
  "(s_hr_monitoring w \<longrightarrow>
      hr_start_monitoring e w =
        w\<lparr>trace := trace w @
            [APP_LOG APP_LOG_LEVEL_WARNING ''HR monitoring already active'' []]\<rparr>)
   \<and> (\<not> s_hr_monitoring w \<longrightarrow>
      hr_stop_monitoring e w =
        w\<lparr>trace := trace w @
            [APP_LOG APP_LOG_LEVEL_WARNING ''HR monitoring not active'' []]\<rparr>)"
  by (simp add: hr_start_monitoring_eq hr_stop_monitoring_eq)

theorem start_stop_idempotent_witness:
  "s_hr_monitoring world_sampling
   \<and> hr_start_monitoring env_ok world_sampling =
       world_sampling\<lparr>trace := trace world_sampling @
         [APP_LOG APP_LOG_LEVEL_WARNING ''HR monitoring already active'' []]\<rparr>
   \<and> \<not> s_hr_monitoring world_idle
   \<and> hr_stop_monitoring env_ok world_idle =
       world_idle\<lparr>trace := trace world_idle @
         [APP_LOG APP_LOG_LEVEL_WARNING ''HR monitoring not active'' []]\<rparr>"
  using start_stop_idempotent [of world_sampling env_ok]
    start_stop_idempotent [of world_idle env_ok]
    world_sampling_fields(2) world_idle_fields(2)
  by simp

text \<open>
  Claim C8. A command value other than \<^verbatim>\<open>CMD_START\<close> (1) and \<^verbatim>\<open>CMD_STOP\<close> (2), such as
  99, leaves the whole world as it was but for two reports added to the trace: the
  information report of the received command and exactly one warning. Nothing is asked of
  the sensor monitor or of the presentation layer.
\<close>

theorem unknown_command_frame:
  assumes "cmd \<noteq> CMD_START" and "cmd \<noteq> CMD_STOP"
  shows "appmsg_handle_command e cmd w =
           w\<lparr>trace := trace w @
               [APP_LOG APP_LOG_LEVEL_INFO ''Received command: %d'' [ArgInt (uint cmd)],
                APP_LOG APP_LOG_LEVEL_WARNING ''Unknown command: %d'' [ArgInt (uint cmd)]]\<rparr>
         \<and> length (filter (is_report APP_LOG_LEVEL_WARNING)
               (new_effects w (appmsg_handle_command e cmd w))) = 1"
  using assms
  by (simp add: appmsg_handle_command_def step_defs new_effects_def is_report_def)

theorem unknown_command_frame_witness:
  "(99 :: uint8_t) \<noteq> CMD_START \<and> (99 :: uint8_t) \<noteq> CMD_STOP
   \<and> appmsg_handle_command env_ok 99 world_sampling =
       world_sampling\<lparr>trace := trace world_sampling @
         [APP_LOG APP_LOG_LEVEL_INFO ''Received command: %d'' [ArgInt 99],
          APP_LOG APP_LOG_LEVEL_WARNING ''Unknown command: %d'' [ArgInt 99]]\<rparr>
   \<and> length (filter (is_report APP_LOG_LEVEL_WARNING)
         (new_effects world_sampling (appmsg_handle_command env_ok 99 world_sampling))) = 1"
proof -
  have a: "(99 :: uint8_t) \<noteq> CMD_START" and b: "(99 :: uint8_t) \<noteq> CMD_STOP"
    by (simp_all add: CMD_START_def CMD_STOP_def)
  have u: "uint (99 :: uint8_t) = 99" by simp
  from unknown_command_frame [OF a b, of env_ok world_sampling, unfolded u] a b show ?thesis
    by blast
qed

text \<open>
  Claim C9. Started on a stopped monitor, \<^verbatim>\<open>hr_start_monitoring\<close> asks for the sample
  period 1, and the monitor is sampling afterwards exactly when that configuration
  succeeded; when it failed the world is unchanged but for the call and an error report.
\<close>

theorem start_needs_sample_period:
  assumes "\<not> s_hr_monitoring w"
  shows "s_hr_monitoring (hr_start_monitoring e w) = set_heart_rate_sample_period_result e
         \<and> (\<not> set_heart_rate_sample_period_result e \<longrightarrow>
              hr_start_monitoring e w =
                w\<lparr>trace := trace w @
                    [Call_health_service_set_heart_rate_sample_period 1,
                     APP_LOG APP_LOG_LEVEL_ERROR ''Failed to set HR sample period'' []]\<rparr>)
         \<and> (set_heart_rate_sample_period_result e \<longrightarrow>
              hr_start_monitoring e w =
                w\<lparr>s_hr_monitoring := True,
                  trace := trace w @
                    [Call_health_service_set_heart_rate_sample_period 1,
                     APP_LOG APP_LOG_LEVEL_INFO ''HR monitoring started (1s interval)'' []]\<rparr>)"
  using assms by (simp add: hr_start_monitoring_eq)

theorem start_needs_sample_period_witness:
  "\<not> s_hr_monitoring world_idle
   \<and> \<not> set_heart_rate_sample_period_result env_period_fails
   \<and> \<not> s_hr_monitoring (hr_start_monitoring env_period_fails world_idle)
   \<and> hr_start_monitoring env_period_fails world_idle =
       world_idle\<lparr>trace := trace world_idle @
         [Call_health_service_set_heart_rate_sample_period 1,
          APP_LOG APP_LOG_LEVEL_ERROR ''Failed to set HR sample period'' []]\<rparr>
   \<and> set_heart_rate_sample_period_result env_ok
   \<and> s_hr_monitoring (hr_start_monitoring env_ok world_idle)"
  using start_needs_sample_period [OF world_idle_fields(2), of env_period_fails]
    start_needs_sample_period [OF world_idle_fields(2), of env_ok]
    world_idle_fields(2)
  by (simp add: env_period_fails_def env_ok_def)

text \<open>
  Claim C10. Stopped on a sampling monitor, \<^verbatim>\<open>hr_stop_monitoring\<close> always ends with the
  monitor stopped and \<open>current_hr = 0\<close>: the answer of the platform to the reset of the
  sample period is not looked at, so the result is the same for either answer.
\<close>

theorem stop_ignores_period_result:
  assumes "s_hr_monitoring w"
  shows "\<not> s_hr_monitoring (hr_stop_monitoring e w)
         \<and> current_hr (g_app_state (hr_stop_monitoring e w)) = 0
         \<and> hr_stop_monitoring (e\<lparr>set_heart_rate_sample_period_result := b\<rparr>) w
             = hr_stop_monitoring e w"
  using assms by (simp add: hr_stop_monitoring_eq)

theorem stop_ignores_period_result_witness:
  "s_hr_monitoring world_sampling
   \<and> \<not> set_heart_rate_sample_period_result env_period_fails
   \<and> \<not> s_hr_monitoring (hr_stop_monitoring env_period_fails world_sampling)
   \<and> current_hr (g_app_state (hr_stop_monitoring env_period_fails world_sampling)) = 0"
  using stop_ignores_period_result [OF world_sampling_fields(2), of env_period_fails]
    world_sampling_fields(2)
  by (simp add: env_period_fails_def)

end
